theory Spec2Isabelle
  imports Complex_Main "HOL-Library.Product_Lexorder" "HOL-Library.Multiset"
begin

section \<open>ESSA: essential site scanning analysis (prody/dynamics/essa.py)\<close>

text \<open>
  The class \<^verbatim>\<open>ESSA\<close> keeps its data in instance attributes that its methods assign in
  place. The model passes the attributes around as a record; a method maps the record
  before the call to a triple: the record after the call (also when the call raises: the
  assignments made before the exception stay), the calls it made to its collaborators
  (logger, model builders, solver, files) in order, and how it ended (a returned value or
  a raised exception).

  numpy's float arrays are lists of reals: rounding of floating-point arithmetic is not
  modelled. An array operation whose IEEE result holds \<^verbatim>\<open>nan\<close> or \<^verbatim>\<open>inf\<close> (a division by
  zero, the mean of nothing) yields \<open>NonFinite\<close>; nothing is said about the entries of such
  an array, and a pocket method that goes on computing with one is \<open>NotModelled\<close>.
\<close>

subsection \<open>Values, exceptions, outcomes\<close>

datatype error =
    AttributeError | UnboundLocalError | TypeError | KeyError | ValueError | IndexError
  | ImportError | ExternalError string

datatype 'a outcome = Returns 'a | Raises error

datatype 'a np = Finite 'a | NonFinite

datatype 'a modelled = Modelled 'a | NotModelled

text \<open>Values of keyword arguments: \<^verbatim>\<open>None\<close>, a string, a number.\<close>

datatype kwval = KNone | KStr string | KNum real

text \<open>Python's truth value of an object, as \<^verbatim>\<open>if self._lig:\<close> tests it.\<close>

fun truthy :: "kwval \<Rightarrow> bool" where
  "truthy KNone = False"
| "truthy (KStr s) = (s \<noteq> [])"
| "truthy (KNum x) = (x \<noteq> 0)"

type_synonym kwargs = "string \<rightharpoonup> kwval"

text \<open>\<^verbatim>\<open>kwargs.pop(key, default)\<close>: the value read (the dictionary is not used afterwards).\<close>

definition kw_pop :: "kwargs \<Rightarrow> string \<Rightarrow> kwval \<Rightarrow> kwval" where
  "kw_pop kw k d = (case kw k of None \<Rightarrow> d | Some v \<Rightarrow> v)"

subsection \<open>Strings\<close>

definition is_space :: "char \<Rightarrow> bool" where
  "is_space c = (c \<in> set [CHR '' '', CHR 0x09, CHR 0x0A, CHR 0x0B, CHR 0x0C, CHR 0x0D])"

text \<open>\<^verbatim>\<open>str.split()\<close> with no argument: the maximal runs of non-whitespace characters.\<close>

fun split_acc :: "string \<Rightarrow> string \<Rightarrow> string list" where
  "split_acc w [] = (if w = [] then [] else [rev w])"
| "split_acc w (c # cs) =
     (if is_space c then (if w = [] then split_acc [] cs else rev w # split_acc [] cs)
      else split_acc (c # w) cs)"

definition py_split :: "string \<Rightarrow> string list" where
  "py_split s = split_acc [] s"

text \<open>\<^verbatim>\<open>zip(ligs[::2], ligs[1::2])\<close>: consecutive pairs, a trailing odd element dropped.\<close>

fun pairs :: "'a list \<Rightarrow> ('a \<times> 'a) list" where
  "pairs (a # b # xs) = (a, b) # pairs xs"
| "pairs _ = []"

text \<open>\<^verbatim>\<open>str(i)\<close> of a non-negative integer.\<close>

fun str_nat :: "nat \<Rightarrow> string" where
  "str_nat n =
     (if n < 10 then [''0123456789'' ! n]
      else str_nat (n div 10) @ [''0123456789'' ! (n mod 10)])"

declare str_nat.simps [simp del]

text \<open>An attribute that may be \<^verbatim>\<open>None\<close>, inside an f-string.\<close>

definition fmt :: "string option \<Rightarrow> string" where
  "fmt t = (case t of None \<Rightarrow> ''None'' | Some s \<Rightarrow> s)"

subsection \<open>Structures and selections\<close>

text \<open>
  Modelled from the spec: Structure and Selection (prody.atomic is not under src/): an
  ordered sequence of atoms, each with its chain ID, residue number and residue index; a
  selection is a named subset in the structure's order.
\<close>

record atom =
  a_chid :: string
  a_resnum :: int
  a_resindex :: nat

record atoms =
  at_title :: string
  at_list :: "atom list"

definition getTitle :: "atoms \<Rightarrow> string" where
  "getTitle a = at_title a"

definition getResindices :: "atoms \<Rightarrow> nat list" where
  "getResindices a = map a_resindex (at_list a)"

definition getChids :: "atoms \<Rightarrow> string list" where
  "getChids a = map a_chid (at_list a)"

definition getResnums :: "atoms \<Rightarrow> int list" where
  "getResnums a = map a_resnum (at_list a)"

definition numAtoms :: "atoms \<Rightarrow> nat" where
  "numAtoms a = length (at_list a)"

text \<open>
  The selection strings the module builds, one constructor per string:
  \<^verbatim>\<open>'protein and heavy and not hetatm'\<close>, the \<^verbatim>\<open>.ca\<close> shortcut,
  \<^verbatim>\<open>f'calpha or resindex {i}'\<close>, and the ligand contact selection
  \<^verbatim>\<open>f'calpha and not hetatm and (same residue as exwithin {dist} of (chain {chid} and resnum {resnum}))'\<close>.
\<close>

datatype selector =
    SelProteinHeavyNotHetatm
  | SelCa
  | SelCalphaOrResindex nat
  | SelLigContact kwval string string

subsection \<open>Elastic network models, mode sets, mode ensembles\<close>

datatype enm_kind = GNM | ANM

text \<open>
  Modelled from the spec: ElasticModel (gnm.py and anm.py are not under src/): a title, the
  selection its interaction matrix was built over, its cutoff distance. The constructor
  \<^verbatim>\<open>GNM(name)\<close> or \<^verbatim>\<open>ANM(name)\<close> gives a model with that title and nothing built.
\<close>

record enm =
  enm_kind :: enm_kind
  enm_title :: string
  enm_coords :: "atoms option"
  enm_cutoff :: "real option"
  enm_reduced :: bool

definition new_enm :: "enm_kind \<Rightarrow> string \<Rightarrow> enm" where
  "new_enm k name =
     \<lparr>enm_kind = k, enm_title = name, enm_coords = None, enm_cutoff = None,
      enm_reduced = False\<rparr>"

text \<open>The builders' own default cutoff: 10 for GNM, 15 for ANM (docstring of scanResidues).\<close>

definition default_cutoff :: "enm_kind \<Rightarrow> real" where
  "default_cutoff k = (case k of GNM \<Rightarrow> 10 | ANM \<Rightarrow> 15)"

text \<open>The computed modes of a model: eigenvalues in the solver's order, with their vectors.\<close>

record modeset =
  ms_model :: enm
  ms_eigvals :: "real list"
  ms_eigvecs :: "real list list"

text \<open>
  Modelled from the spec: ModeEnsemble (signature.py is not under src/): an ordered
  sequence of mode sets over one reference selection, with labels; a mode set is appended
  at the end, the eigenvalues of all members are read stacked, one row per member.
\<close>

record ensemble =
  ens_title :: string
  ens_atoms :: "atoms option"
  ens_modesets :: "modeset list"
  ens_labels :: "string list option"

definition ModeEnsemble :: "string \<Rightarrow> ensemble" where
  "ModeEnsemble t = \<lparr>ens_title = t, ens_atoms = None, ens_modesets = [], ens_labels = None\<rparr>"

definition setAtoms :: "ensemble \<Rightarrow> atoms option \<Rightarrow> ensemble" where
  "setAtoms e a = e\<lparr>ens_atoms := a\<rparr>"

definition addModeSet :: "ensemble \<Rightarrow> modeset \<Rightarrow> ensemble" where
  "addModeSet e m = e\<lparr>ens_modesets := ens_modesets e @ [m]\<rparr>"

definition setLabels :: "ensemble \<Rightarrow> string list \<Rightarrow> ensemble" where
  "setLabels e ls = e\<lparr>ens_labels := Some ls\<rparr>"

definition getEigvals :: "ensemble \<Rightarrow> real list list" where
  "getEigvals e = map ms_eigvals (ens_modesets e)"

subsection \<open>The collaborators\<close>

text \<open>
  What the module calls and does not define is a parameter of the model:
  \<^item> \<open>env_select\<close>: \<^verbatim>\<open>atoms.select(...)\<close>, which gives \<^verbatim>\<open>None\<close> when no atom matches;
  \<^item> \<open>env_build_error\<close>: whether building the interaction matrix over a selection with a
    cutoff fails;
  \<^item> \<open>env_calcModes\<close>: the eigen-solver, for a model and the \<^verbatim>\<open>n_modes\<close> argument;
  \<^item> \<open>env_reduceModel\<close>: the reduction of a model onto a sub-selection;
  \<^item> \<open>env_match\<close>: how \<^verbatim>\<open>match()\<close> reorders the modes of a member against the reference;
  \<^item> \<open>env_which_fpocket\<close>: \<^verbatim>\<open>which('fpocket')\<close>; \<open>env_pandas_error\<close>: the message of
    the ImportError when pandas does not import, \<open>None\<close> when it does; \<open>env_isdir\<close>:
    \<^verbatim>\<open>os.path.isdir\<close>;
  \<^item> \<open>env_pocket_files\<close>: the pocket files fpocket wrote: file name, the scored feature
    lines, the (chain, residue number) of each atom.
\<close>

record env =
  env_select :: "atoms \<Rightarrow> selector \<Rightarrow> atoms option"
  env_build_error :: "enm_kind \<Rightarrow> atoms option \<Rightarrow> real \<Rightarrow> error option"
  env_calcModes :: "enm \<Rightarrow> int option \<Rightarrow> modeset outcome"
  env_reduceModel :: "enm \<Rightarrow> atoms option \<Rightarrow> atoms option \<Rightarrow> enm outcome"
  env_match :: "modeset \<Rightarrow> modeset \<Rightarrow> modeset"
  env_which_fpocket :: "string option"
  env_pandas_error :: "string option"
  env_isdir :: "string \<Rightarrow> bool"
  env_pocket_files :: "(nat \<times> (string \<times> real) list \<times> (string \<times> int) list) list"

text \<open>The calls a method makes to the outside, in order.\<close>

datatype event =
    EvWarning string
  | EvProgress nat
  | EvUpdate nat
  | EvBuild enm
  | EvReduce enm
  | EvCalcModes enm "int option"
  | EvDump string
  | EvWritePDB string
  | EvSystem string

subsection \<open>The ESSA object\<close>

type_synonym table = "(nat \<times> real list) list"

record essa =
  s_atoms :: "atoms option"
  s_title :: "string option"
  s_lig :: kwval
  s_heavy :: "atoms option"
  s_ca :: "atoms option"
  s_n_modes :: "int option"
  s_enm :: "string option"
  s_cutoff :: "real option"
  s_lig_idx :: "(string \<rightharpoonup> nat list) option"
  s_dist :: "kwval option"
  s_ensemble :: "ensemble option"
  s_labels :: "string list option"
  s_zscore :: "real list np option"
  s_df :: "(string list \<times> table) option"
  s_df_zs :: "(nat \<times> real \<times> real \<times> real) list np option"
  s_idx_max :: "nat list option"
  s_idx_med :: "nat list option"
  s_pocket_ranks :: "(nat \<times> nat \<times> nat) list option"

type_synonym 'a run = "essa \<times> event list \<times> 'a outcome"

definition state_of :: "'a run \<Rightarrow> essa" where
  "state_of r = fst r"

definition events_of :: "'a run \<Rightarrow> event list" where
  "events_of r = fst (snd r)"

definition outcome_of :: "'a run \<Rightarrow> 'a outcome" where
  "outcome_of r = snd (snd r)"

text \<open>\<^verbatim>\<open>ESSA()\<close>: every attribute of \<^verbatim>\<open>__init__\<close> is \<^verbatim>\<open>None\<close>; the pocket attributes do not exist yet.\<close>

definition ESSA_init :: essa where
  "ESSA_init =
     \<lparr>s_atoms = None, s_title = None, s_lig = KNone, s_heavy = None, s_ca = None,
      s_n_modes = None, s_enm = None, s_cutoff = None, s_lig_idx = None, s_dist = None,
      s_ensemble = None, s_labels = None, s_zscore = None, s_df = None, s_df_zs = None,
      s_idx_max = None, s_idx_med = None, s_pocket_ranks = None\<rparr>"

subsection \<open>setSystem\<close>

text \<open>
  The loop over the ligands: for each (chain, residue number) the contact selection is
  made on the whole structure and its residue indices are stored under the key
  chain + residue number. \<^verbatim>\<open>select\<close> gives \<^verbatim>\<open>None\<close> when nothing matches, and
  \<^verbatim>\<open>None.getResindices()\<close> raises AttributeError.
\<close>

fun lig_loop :: "env \<Rightarrow> (string \<times> string) list \<Rightarrow> essa \<Rightarrow> unit run" where
  "lig_loop env [] s = (s, [], Returns ())"
| "lig_loop env ((chid, resnum) # ligs) s =
     (case s_dist s of
        None \<Rightarrow> (s, [], Raises AttributeError)
      | Some d \<Rightarrow>
         (case s_atoms s of
            None \<Rightarrow> (s, [], Raises AttributeError)
          | Some a \<Rightarrow>
             (case env_select env a (SelLigContact d chid resnum) of
                None \<Rightarrow> (s, [], Raises AttributeError)
              | Some sel \<Rightarrow>
                 (case s_lig_idx s of
                    None \<Rightarrow> (s, [], Raises TypeError)
                  | Some m \<Rightarrow>
                      lig_loop env ligs
                        (s\<lparr>s_lig_idx := Some (m(chid @ resnum \<mapsto> getResindices sel))\<rparr>)))))"

definition setSystem :: "env \<Rightarrow> atoms \<Rightarrow> kwargs \<Rightarrow> essa \<Rightarrow> unit run" where
  "setSystem env a kw s0 =
     (let s1 = s0\<lparr>s_atoms := Some a, s_title := Some (getTitle a),
                  s_lig := kw_pop kw ''lig'' KNone\<rparr>;
          s2 = (if truthy (s_lig s1)
                then s1\<lparr>s_lig_idx := Some Map.empty,
                        s_dist := Some (kw_pop kw ''dist'' (KNum 4.5))\<rparr>
                else s1);
          s3 = s2\<lparr>s_heavy := env_select env a SelProteinHeavyNotHetatm\<rparr>
      in case s_heavy s3 of
           None \<Rightarrow> (s3, [], Raises AttributeError)
         | Some h \<Rightarrow>
            (let s4 = s3\<lparr>s_ca := env_select env h SelCa\<rparr>
             in if truthy (s_lig s4)
                then (case s_lig s4 of
                        KStr l \<Rightarrow> lig_loop env (pairs (py_split l)) s4
                      | _ \<Rightarrow> (s4, [], Raises AttributeError))
                else (s4, [], Returns ())))"

subsection \<open>The ligand getters\<close>

definition getLigandResidueIndices :: "essa \<Rightarrow> (string \<rightharpoonup> nat list) option run" where
  "getLigandResidueIndices s =
     (if truthy (s_lig s) then (s, [], Returns (s_lig_idx s))
      else (s, [EvWarning ''No ligand provided.''], Returns None))"

definition saveLigandResidueIndices :: "essa \<Rightarrow> unit option run" where
  "saveLigandResidueIndices s =
     (if truthy (s_lig s)
      then (s, [EvDump (fmt (s_title s) @ ''_ligand_resindices.pkl'')], Returns None)
      else (s, [EvWarning ''No ligand provided.''], Returns None))"

subsection \<open>Sequencing\<close>

text \<open>
  Statements in sequence: the second runs in the state the first left, unless the first
  raised; the calls of both are recorded in order.
\<close>

definition bind_run :: "'a run \<Rightarrow> (essa \<Rightarrow> 'a \<Rightarrow> 'b run) \<Rightarrow> 'b run" where
  "bind_run r f =
     (case r of
        (s, l, Raises e) \<Rightarrow> (s, l, Raises e)
      | (s, l, Returns x) \<Rightarrow> (case f s x of (s', l', r') \<Rightarrow> (s', l @ l', r')))"

subsection \<open>Array arithmetic of the ESSA computation\<close>

fun np_bind :: "'a np \<Rightarrow> ('a \<Rightarrow> 'b np) \<Rightarrow> 'b np" where
  "np_bind NonFinite f = NonFinite"
| "np_bind (Finite x) f = f x"

text \<open>
  \<^verbatim>\<open>ensemble[1:].getEigvals() - denom\<close>: the row \<open>denom\<close> is subtracted from every row.
  The stacked eigenvalues have the reference's number of columns; rows of another length
  are reported as the ValueError of a failed broadcast.
\<close>

definition bsub :: "real list list \<Rightarrow> real list \<Rightarrow> real list list outcome" where
  "bsub M v =
     (if list_all (\<lambda>row. length row = length v) M
      then Returns (map (\<lambda>row. map2 (-) row v) M)
      else Raises ValueError)"

text \<open>\<^verbatim>\<open>num / denom * 100\<close>, element by element; a zero in \<open>denom\<close> gives \<^verbatim>\<open>inf\<close> or \<^verbatim>\<open>nan\<close>.\<close>

definition eig_diff_of :: "real list list \<Rightarrow> real list \<Rightarrow> real list list np" where
  "eig_diff_of num denom =
     (if num \<noteq> [] \<and> 0 \<in> set denom then NonFinite
      else Finite (map (\<lambda>row. map2 (\<lambda>x d. x / d * 100) row denom) num))"

text \<open>\<^verbatim>\<open>mean(eig_diff, axis=1)\<close>: the mean of each row; the mean of an empty row is \<^verbatim>\<open>nan\<close>.\<close>

definition mean_axis1 :: "real list list \<Rightarrow> real list np" where
  "mean_axis1 M =
     (if [] \<in> set M then NonFinite
      else Finite (map (\<lambda>row. sum_list row / real (length row)) M))"

text \<open>
  \<^verbatim>\<open>scipy.stats.zscore(a)\<close> with its defaults: \<^verbatim>\<open>(a - a.mean()) / a.std(ddof=0)\<close>. An empty
  array stays empty; a zero standard deviation gives \<^verbatim>\<open>nan\<close>.
\<close>

definition np_mean :: "real list \<Rightarrow> real" where
  "np_mean a = sum_list a / real (length a)"

definition np_std :: "real list \<Rightarrow> real" where
  "np_std a = sqrt (sum_list (map (\<lambda>x. (x - np_mean a)\<^sup>2) a) / real (length a))"

definition zscore :: "real list \<Rightarrow> real list np" where
  "zscore a =
     (if a = [] then Finite []
      else if np_std a = 0 then NonFinite
      else Finite (map (\<lambda>x. (x - np_mean a) / np_std a) a))"

subsection \<open>scanResidues\<close>

text \<open>
  \<^verbatim>\<open>buildKirchhoff(coords, cutoff=...)\<close> and \<^verbatim>\<open>buildHessian(coords, cutoff=...)\<close>: the model
  keeps the selection and the cutoff it was built with; with no cutoff given the builder
  takes its default.
\<close>

definition build :: "env \<Rightarrow> enm \<Rightarrow> atoms option \<Rightarrow> real option \<Rightarrow> enm outcome" where
  "build env m coords cutoff =
     (let c = (case cutoff of None \<Rightarrow> default_cutoff (enm_kind m) | Some c \<Rightarrow> c)
      in case env_build_error env (enm_kind m) coords c of
           Some e \<Rightarrow> Raises e
         | None \<Rightarrow> Returns (m\<lparr>enm_coords := coords, enm_cutoff := Some c\<rparr>))"

text \<open>
  The body of \<^verbatim>\<open>if self._enm == 'gnm':\<close> (and of the \<^verbatim>\<open>'anm'\<close> one) for the reference
  model: with a cutoff given it is stored and used; with none the builder chooses and the
  model's cutoff is read back with \<^verbatim>\<open>getCutoff()\<close>.
\<close>

definition reference_model :: "env \<Rightarrow> enm_kind \<Rightarrow> real option \<Rightarrow> essa \<Rightarrow> enm run" where
  "reference_model env k cutoff s =
     (case cutoff of
        Some c \<Rightarrow>
          (let s1 = s\<lparr>s_cutoff := Some c\<rparr>
           in case build env (new_enm k ''ca'') (s_ca s1) (s_cutoff s1) of
                Raises e \<Rightarrow> (s1, [], Raises e)
              | Returns m \<Rightarrow> (s1, [EvBuild m], Returns m))
      | None \<Rightarrow>
          (case build env (new_enm k ''ca'') (s_ca s) None of
             Raises e \<Rightarrow> (s, [], Raises e)
           | Returns m \<Rightarrow> (s\<lparr>s_cutoff := enm_cutoff m\<rparr>, [EvBuild m], Returns m)))"

text \<open>
  One of the two \<^verbatim>\<open>if self._enm == ...\<close> statements: it binds the local variable (here
  \<open>local\<close>, \<open>None\<close> while unbound) when the kind matches and leaves it alone otherwise.
\<close>

definition ref_branch ::
  "env \<Rightarrow> string \<Rightarrow> enm_kind \<Rightarrow> real option \<Rightarrow> essa \<Rightarrow> enm option \<Rightarrow> enm option run" where
  "ref_branch env tag k cutoff s local =
     (if s_enm s = Some tag
      then bind_run (reference_model env k cutoff s) (\<lambda>s' m. (s', [], Returns (Some m)))
      else (s, [], Returns local))"

text \<open>\<^verbatim>\<open>ca_enm.calcModes(n_modes=n_modes)\<close> and \<^verbatim>\<open>self._ensemble.addModeSet(ca_enm[:])\<close>.\<close>

definition add_modes :: "env \<Rightarrow> int option \<Rightarrow> essa \<Rightarrow> enm option \<Rightarrow> unit run" where
  "add_modes env n_modes s local =
     (case local of
        None \<Rightarrow> (s, [], Raises UnboundLocalError)
      | Some m \<Rightarrow>
         (case env_calcModes env m n_modes of
            Raises e \<Rightarrow> (s, [EvCalcModes m n_modes], Raises e)
          | Returns ms \<Rightarrow>
             (case s_ensemble s of
                None \<Rightarrow> (s, [EvCalcModes m n_modes], Raises AttributeError)
              | Some e \<Rightarrow>
                 (s\<lparr>s_ensemble := Some (addModeSet e ms)\<rparr>, [EvCalcModes m n_modes],
                  Returns ()))))"

text \<open>
  One of the two \<^verbatim>\<open>if self._enm == ...\<close> statements of the loop body, for the perturbed
  model; it is built with \<^verbatim>\<open>cutoff=self._cutoff\<close>, which the reference part has set.
\<close>

definition pert_branch ::
  "env \<Rightarrow> string \<Rightarrow> enm_kind \<Rightarrow> nat \<Rightarrow> atoms option \<Rightarrow> essa \<Rightarrow> enm option \<Rightarrow> enm option run" where
  "pert_branch env tag k i tmp s local =
     (if s_enm s = Some tag
      then (case build env (new_enm k (''res_'' @ str_nat i)) tmp (s_cutoff s) of
              Raises e \<Rightarrow> (s, [], Raises e)
            | Returns m \<Rightarrow> (s, [EvBuild m], Returns (Some m)))
      else (s, [], Returns local))"

text \<open>
  \<^verbatim>\<open>reduceModel(tmp_enm, tmp, self._ca)\<close>, \<^verbatim>\<open>calcModes(n_modes=self._n_modes)\<close>, then the
  mode set is appended to the ensemble and the title of the unreduced model to the labels.
\<close>

definition reduce_and_add :: "env \<Rightarrow> atoms option \<Rightarrow> essa \<Rightarrow> enm option \<Rightarrow> unit run" where
  "reduce_and_add env tmp s local =
     (case local of
        None \<Rightarrow> (s, [], Raises UnboundLocalError)
      | Some m \<Rightarrow>
         (case env_reduceModel env m tmp (s_ca s) of
            Raises e \<Rightarrow> (s, [], Raises e)
          | Returns red \<Rightarrow>
             bind_run (s, [EvReduce red], Returns ()) (\<lambda>s _.
             bind_run (add_modes env (s_n_modes s) s (Some red)) (\<lambda>s _.
               (case s_labels s of
                  None \<Rightarrow> (s, [], Raises AttributeError)
                | Some ls \<Rightarrow>
                   (s\<lparr>s_labels := Some (ls @ [enm_title m])\<rparr>, [], Returns ()))))))"

text \<open>The body of \<^verbatim>\<open>for i in self._ca.getResindices():\<close>.\<close>

definition scan_residue :: "env \<Rightarrow> nat \<Rightarrow> essa \<Rightarrow> unit run" where
  "scan_residue env i s =
     bind_run (s, [EvUpdate (i + 1)], Returns ()) (\<lambda>s _.
       (case s_heavy s of
          None \<Rightarrow> (s, [], Raises AttributeError)
        | Some h \<Rightarrow>
           (let tmp = env_select env h (SelCalphaOrResindex i)
            in bind_run (pert_branch env ''gnm'' GNM i tmp s None) (\<lambda>s local.
               bind_run (pert_branch env ''anm'' ANM i tmp s local) (\<lambda>s local.
               reduce_and_add env tmp s local)))))"

fun scan_loop :: "env \<Rightarrow> nat list \<Rightarrow> essa \<Rightarrow> unit run" where
  "scan_loop env [] s = (s, [], Returns ())"
| "scan_loop env (i # is) s = bind_run (scan_residue env i s) (\<lambda>s' _. scan_loop env is s')"

text \<open>
  Modelled from the spec: ModeEnsemble.match (signature.py is not under src/): the modes of
  every member are put in correspondence with those of member 0; the members stay where
  they are.
\<close>

definition match :: "env \<Rightarrow> ensemble \<Rightarrow> ensemble" where
  "match env e =
     (case ens_modesets e of
        [] \<Rightarrow> e
      | r # ms \<Rightarrow> e\<lparr>ens_modesets := r # map (env_match env r) ms\<rparr>)"

text \<open>\<^verbatim>\<open>self._ensemble.setLabels(self._labels)\<close> and \<^verbatim>\<open>self._ensemble.match()\<close>.\<close>

definition label_and_match :: "env \<Rightarrow> essa \<Rightarrow> unit run" where
  "label_and_match env s =
     (case s_ensemble s of
        None \<Rightarrow> (s, [], Raises AttributeError)
      | Some e \<Rightarrow>
         (case s_labels s of
            None \<Rightarrow> (s, [], Raises TypeError)
          | Some ls \<Rightarrow> (s\<lparr>s_ensemble := Some (match env (setLabels e ls))\<rparr>, [], Returns ())))"

text \<open>The scores from the stacked eigenvalues: reference row \<open>denom\<close>, perturbed rows \<open>rows\<close>.\<close>

definition essa_scores :: "real list \<Rightarrow> real list list \<Rightarrow> real list np outcome" where
  "essa_scores denom rows =
     (case bsub rows denom of
        Raises e \<Rightarrow> Raises e
      | Returns num \<Rightarrow>
          Returns (np_bind (eig_diff_of num denom) (\<lambda>eig_diff.
                   np_bind (mean_axis1 eig_diff) (\<lambda>eig_diff_mean.
                   zscore eig_diff_mean))))"

text \<open>The ESSA computation part: \<^verbatim>\<open>self._ensemble[0]\<close> is the reference, \<^verbatim>\<open>[1:]\<close> the rest.\<close>

definition essa_computation :: "essa \<Rightarrow> unit run" where
  "essa_computation s =
     (case s_ensemble s of
        None \<Rightarrow> (s, [], Raises TypeError)
      | Some e \<Rightarrow>
         (case getEigvals e of
            [] \<Rightarrow> (s, [], Raises IndexError)
          | denom # rows \<Rightarrow>
             (case essa_scores denom rows of
                Raises er \<Rightarrow> (s, [], Raises er)
              | Returns z \<Rightarrow> (s\<lparr>s_zscore := Some z\<rparr>, [], Returns ()))))"

definition scanResidues :: "env \<Rightarrow> int \<Rightarrow> string \<Rightarrow> real option \<Rightarrow> essa \<Rightarrow> unit run" where
  "scanResidues env n_modes enm cutoff s0 =
     (let s1 = s0\<lparr>s_n_modes := Some n_modes, s_enm := Some enm\<rparr>;
          s2 = s1\<lparr>s_ensemble := Some (setAtoms (ModeEnsemble (fmt (s_title s1))) (s_ca s1)),
                  s_labels := Some [''ref'']\<rparr>
      in bind_run (ref_branch env ''gnm'' GNM cutoff s2 None) (\<lambda>s local.
         bind_run (ref_branch env ''anm'' ANM cutoff s local) (\<lambda>s local.
         bind_run (add_modes env (Some n_modes) s local) (\<lambda>s _.
         (case s_ca s of
            None \<Rightarrow> (s, [], Raises AttributeError)
          | Some ca \<Rightarrow>
             bind_run (s, [EvProgress (numAtoms ca)], Returns ()) (\<lambda>s _.
             bind_run (scan_loop env (getResindices ca) s) (\<lambda>s _.
             bind_run (label_and_match env s) (\<lambda>s _.
             essa_computation s))))))))"

subsection \<open>scanPockets\<close>

text \<open>Python's \<^verbatim>\<open>max\<close> of a sequence (ValueError when empty) and numpy's \<^verbatim>\<open>median\<close>.\<close>

definition py_max :: "real list \<Rightarrow> real outcome" where
  "py_max v = (case v of [] \<Rightarrow> Raises ValueError | x # xs \<Rightarrow> Returns (fold max xs x))"

definition median :: "real list \<Rightarrow> real np" where
  "median v =
     (let srt = sort v; n = length v
      in if n = 0 then NonFinite
         else if odd n then Finite (srt ! (n div 2))
         else Finite ((srt ! (n div 2 - 1) + srt ! (n div 2)) / 2))"

text \<open>\<^verbatim>\<open>self._zscore[v]\<close> with a list of indices: IndexError when one is out of range.\<close>

definition take_at :: "real list \<Rightarrow> nat list \<Rightarrow> real list outcome" where
  "take_at z v =
     (if list_all (\<lambda>k. k < length z) v then Returns (map (\<lambda>k. z ! k) v)
      else Raises IndexError)"

text \<open>\<^verbatim>\<open>[rcr[x] for x in crn]\<close>: KeyError at the first residue the dictionary does not hold.\<close>

fun lookup_all :: "('k \<rightharpoonup> 'v) \<Rightarrow> 'k list \<Rightarrow> 'v list outcome" where
  "lookup_all m [] = Returns []"
| "lookup_all m (x # xs) =
     (case m x of
        None \<Rightarrow> Raises KeyError
      | Some y \<Rightarrow> (case lookup_all m xs of Raises e \<Rightarrow> Raises e | Returns ys \<Rightarrow> Returns (y # ys)))"

text \<open>
  The row of one pocket in the z-score table: maximum and median of the ESSA z-scores of
  its residues. A pocket lists each residue once (\<^verbatim>\<open>set(zip(chids, resnums))\<close>).
\<close>

definition pocket_essa ::
  "((string \<times> int) \<rightharpoonup> nat) \<Rightarrow> real list \<Rightarrow> (string \<times> int) list \<Rightarrow> (real \<times> real) outcome" where
  "pocket_essa rcr z crn =
     (case lookup_all rcr (remdups crn) of
        Raises e \<Rightarrow> Raises e
      | Returns v \<Rightarrow>
         (case take_at z v of
            Raises e \<Rightarrow> Raises e
          | Returns zv \<Rightarrow>
             (case py_max zv of
                Raises e \<Rightarrow> Raises e
              | Returns mx \<Rightarrow>
                 (case median zv of
                    NonFinite \<Rightarrow> Raises ValueError
                  | Finite md \<Rightarrow> Returns (mx, md)))))"

fun pockets_essa ::
  "((string \<times> int) \<rightharpoonup> nat) \<Rightarrow> real list \<Rightarrow> (string \<times> int) list list \<Rightarrow>
     (real \<times> real) list outcome" where
  "pockets_essa rcr z [] = Returns []"
| "pockets_essa rcr z (crn # rest) =
     (case pocket_essa rcr z crn of
        Raises e \<Rightarrow> Raises e
      | Returns r \<Rightarrow>
         (case pockets_essa rcr z rest of
            Raises e \<Rightarrow> Raises e
          | Returns rs \<Rightarrow> Returns (r # rs)))"

text \<open>\<^verbatim>\<open>self._df[['Local hydrophobic density Score']]\<close>: the column of that feature.\<close>

fun index_of :: "'a \<Rightarrow> 'a list \<Rightarrow> nat option" where
  "index_of x [] = None"
| "index_of x (y # ys) =
     (if x = y then Some 0 else (case index_of x ys of None \<Rightarrow> None | Some k \<Rightarrow> Some (k + 1)))"

text \<open>
  The part of scanPockets after the two guards: the pocket files in the order of the
  number in their name; the feature table from their scored lines, its column names taken
  from the last file; the z-score table with one row per pocket, numbered from 1.
\<close>

definition pocket_tables :: "env \<Rightarrow> essa \<Rightarrow> unit option run modelled" where
  "pocket_tables env s =
     (case s_ca s of
        None \<Rightarrow> Modelled (s, [], Raises AttributeError)
      | Some ca \<Rightarrow>
         (let rcr = map_of (rev (zip (zip (getChids ca) (getResnums ca)) (getResindices ca)));
              pro = fmt (s_title s) @ ''_pro'';
              direc = pro @ ''_out'';
              ev = EvWritePDB pro #
                   (if env_isdir env direc then [] else [EvSystem (''fpocket -f '' @ pro @ ''.pdb'')]);
              fs = sort_key fst (env_pocket_files env);
              ps = map (\<lambda>(p, feats, crn). map snd feats) fs
          in if list_ex (\<lambda>(p, feats, crn). feats = []) fs
             then Modelled (s, ev, Raises ValueError)
             else if \<not> distinct (map fst fs)
             then Modelled (s, ev, Raises ValueError)
             else
               (case s_zscore s of
                  None \<Rightarrow> Modelled (s, ev, Raises TypeError)
                | Some NonFinite \<Rightarrow> NotModelled
                | Some (Finite z) \<Rightarrow>
                   (case pockets_essa rcr z (map (\<lambda>(p, feats, crn). crn) fs) of
                      Raises e \<Rightarrow> Modelled (s, ev, Raises e)
                    | Returns pzs \<Rightarrow>
                       (case rev fs of
                          [] \<Rightarrow> Modelled (s, ev, Raises UnboundLocalError)
                        | (p, feats, crn) # _ \<Rightarrow>
                           (let fea = map fst feats
                            in if \<not> list_all (\<lambda>row. length row = length fea) ps
                               then Modelled (s, ev, Raises ValueError)
                               else
                                 (let s1 = s\<lparr>s_df := Some (fea, zip [1 ..< length ps + 1] ps)\<rparr>
                                  in case index_of ''Local hydrophobic density Score'' fea of
                                       None \<Rightarrow> Modelled (s1, ev, Raises KeyError)
                                     | Some c \<Rightarrow>
                                        (case zscore (map (\<lambda>row. row ! c) ps) of
                                           NonFinite \<Rightarrow>
                                             Modelled (s1\<lparr>s_df_zs := Some NonFinite\<rparr>, ev, Returns None)
                                         | Finite lhd \<Rightarrow>
                                             Modelled
                                               (s1\<lparr>s_df_zs :=
                                                     Some (Finite
                                                       (map (\<lambda>(k, (mx, md), l). (k, mx, md, l))
                                                          (zip [1 ..< length ps + 1] (zip pzs lhd))))\<rparr>,
                                                ev, Returns None)))))))))"

text \<open>
  scanPockets: without fpocket, or without pandas, a warning is logged and \<^verbatim>\<open>None\<close> is
  returned before anything else is done.
\<close>

definition scanPockets :: "env \<Rightarrow> essa \<Rightarrow> unit option run modelled" where
  "scanPockets env s =
     (case env_which_fpocket env of
        None \<Rightarrow>
          Modelled (s, [EvWarning ''Fpocket 3.0 was not found, please install it.''], Returns None)
      | Some fpocket \<Rightarrow>
         (case env_pandas_error env of
            Some ie \<Rightarrow>
              Modelled (s, [EvWarning (ie @ '' was found, please install it.'')], Returns None)
          | None \<Rightarrow> pocket_tables env s))"

subsection \<open>rankPockets\<close>

text \<open>
  numpy's \<^verbatim>\<open>quantile(a, q)\<close> with its default (linear) interpolation: in the sorted
  array, the value at the fractional position \<open>(n - 1) * q\<close>. Of an empty array it is
  \<^verbatim>\<open>nan\<close>.
\<close>

definition quantile :: "real list \<Rightarrow> real \<Rightarrow> real np" where
  "quantile a q =
     (if a = [] then NonFinite
      else (let srt = sort a;
                h = real (length a - 1) * q;
                lo = nat \<lfloor>h\<rfloor>;
                hi = min (lo + 1) (length a - 1)
            in Finite (srt ! lo + (h - real lo) * (srt ! hi - srt ! lo))))"

text \<open>\<^verbatim>\<open>x >= q\<close> for a float \<open>x\<close>: false when \<open>q\<close> is \<^verbatim>\<open>nan\<close>.\<close>

definition ge_np :: "real \<Rightarrow> real np \<Rightarrow> bool" where
  "ge_np x q = (case q of Finite v \<Rightarrow> x \<ge> v | NonFinite \<Rightarrow> False)"

text \<open>
  \<^verbatim>\<open>Series.round(d)\<close>: to \<open>d\<close> decimals, a value half-way between two neighbours going to
  the even one (numpy's rule).
\<close>

definition rint :: "real \<Rightarrow> real" where
  "rint x =
     (let f = \<lfloor>x\<rfloor>; d = x - of_int f
      in if d < 1 / 2 then of_int f
         else if d > 1 / 2 then of_int (f + 1)
         else if even f then of_int f else of_int (f + 1))"

definition np_round :: "nat \<Rightarrow> real \<Rightarrow> real" where
  "np_round d x = rint (x * 10 ^ d) / 10 ^ d"

text \<open>
  The boolean mask of one ranking, as the \<^verbatim>\<open>if n >= lhd.size // 4:\<close> statement computes
  it from the LHD column of the two-column frame.
\<close>

definition lhd_mask :: "nat \<Rightarrow> nat \<Rightarrow> real np \<Rightarrow> real list \<Rightarrow> bool list" where
  "lhd_mask n sz q col =
     (if n \<ge> sz div 4 then map (\<lambda>x. x \<ge> 0) col else map (\<lambda>x. ge_np x q) col)"

text \<open>
  \<^verbatim>\<open>sort_values([criterion, 'LHD'], ascending=False)\<close> on rows (pocket number, criterion,
  LHD): descending by the criterion, then by LHD; pandas sorts on several columns with a
  stable sort, so rows with equal keys stay in the order they had.
\<close>

definition sort_key_desc :: "(nat \<times> real \<times> real) \<Rightarrow> real \<times> real" where
  "sort_key_desc r = (- fst (snd r), - snd (snd r))"

definition sort_values_desc :: "(nat \<times> real \<times> real) list \<Rightarrow> (nat \<times> real \<times> real) list" where
  "sort_values_desc zf = sort_key sort_key_desc zf"

text \<open>\<^verbatim>\<open>zf[f]\<close>: the rows where the mask holds.\<close>

definition select_rows :: "'a list \<Rightarrow> bool list \<Rightarrow> 'a list" where
  "select_rows zf f = map fst (filter snd (zip zf f))"

text \<open>
  One ranking, from the two-column frame \<open>zf\<close> (pocket number, ESSA criterion, LHD): the
  mask, the rows kept, column 0 rounded to 1 decimal, column 1 to 2 decimals, the sort.
\<close>

definition ranking :: "nat \<Rightarrow> nat \<Rightarrow> real np \<Rightarrow> (nat \<times> real \<times> real) list \<Rightarrow> (nat \<times> real \<times> real) list" where
  "ranking n sz q zf =
     (let f = lhd_mask n sz q (map (\<lambda>r. snd (snd r)) zf);
          zf1 = select_rows zf f;
          zf2 = map (\<lambda>(k, e, l). (k, np_round 1 e, l)) zf1;
          zf3 = map (\<lambda>(k, e, l). (k, e, np_round 2 l)) zf2
      in sort_values_desc zf3)"

definition rankPockets :: "env \<Rightarrow> essa \<Rightarrow> unit run modelled" where
  "rankPockets env s =
     (case env_pandas_error env of
        Some ie \<Rightarrow> Modelled (s, [], Raises ImportError)
      | None \<Rightarrow>
         (case s_df_zs s of
            None \<Rightarrow> Modelled (s, [], Raises AttributeError)
          | Some NonFinite \<Rightarrow> NotModelled
          | Some (Finite df_zs) \<Rightarrow>
             (let lhd = map (\<lambda>(k, mx, md, l). l) df_zs;
                  n = length (filter (\<lambda>x. x \<ge> 0) lhd);
                  q = quantile lhd (85 / 100);
                  zf_max = ranking n (length lhd) q (map (\<lambda>(k, mx, md, l). (k, mx, l)) df_zs);
                  s1 = s\<lparr>s_idx_max := Some (map fst zf_max)\<rparr>;
                  zf_med = ranking n (length lhd) q (map (\<lambda>(k, mx, md, l). (k, md, l)) df_zs);
                  s2 = s1\<lparr>s_idx_med := Some (map fst zf_med)\<rparr>
              in if length zf_med \<noteq> length zf_max
                 then Modelled (s2, [], Raises ValueError)
                 else Modelled
                        (s2\<lparr>s_pocket_ranks :=
                              Some (zip [1 ..< length zf_max + 1]
                                     (zip (map fst zf_max) (map fst zf_med)))\<rparr>,
                         [], Returns ()))))"

subsection \<open>The pocket ranking, as the specification words it\<close>

text \<open>The four columns of a row of the z-score table: pocket number, ESSA_max, ESSA_med, LHD.\<close>

definition lhd_of :: "nat \<times> real \<times> real \<times> real \<Rightarrow> real" where
  "lhd_of r = snd (snd (snd r))"

text \<open>
  The threshold of the LHD filter: with \<open>n\<close> the number of pockets of non-negative
  normalized LHD, 0 when \<open>n\<close> is at least a quarter of the pockets (integer division), the
  85th percentile of the column otherwise.
\<close>

definition spec_threshold :: "real list \<Rightarrow> real np" where
  "spec_threshold lhd =
     (let n = length (filter (\<lambda>x. 0 \<le> x) lhd)
      in if length lhd div 4 \<le> n then Finite 0 else quantile lhd (85 / 100))"

text \<open>The pockets that pass the filter, in the order of the table.\<close>

definition spec_kept ::
  "(nat \<times> real \<times> real \<times> real) list \<Rightarrow> (nat \<times> real \<times> real \<times> real) list" where
  "spec_kept df = filter (\<lambda>r. ge_np (lhd_of r) (spec_threshold (map lhd_of df))) df"

text \<open>The two criteria, the two-column frame of each, and the attribute its ranking goes to.\<close>

datatype criterion = ByMax | ByMed

fun frame :: "criterion \<Rightarrow> nat \<times> real \<times> real \<times> real \<Rightarrow> nat \<times> real \<times> real" where
  "frame ByMax (k, mx, md, l) = (k, mx, l)"
| "frame ByMed (k, mx, md, l) = (k, md, l)"

fun s_idx :: "criterion \<Rightarrow> essa \<Rightarrow> nat list option" where
  "s_idx ByMax s = s_idx_max s"
| "s_idx ByMed s = s_idx_med s"

text \<open>The ESSA column rounded to 1 decimal, the LHD column to 2 decimals.\<close>

definition spec_rounded :: "(nat \<times> real \<times> real) list \<Rightarrow> (nat \<times> real \<times> real) list" where
  "spec_rounded zf = map (\<lambda>(k, e, l). (k, np_round 1 e, np_round 2 l)) zf"

text \<open>The key of the ranking: (ESSA criterion, LHD), compared lexicographically.\<close>

definition rank_key :: "nat \<times> real \<times> real \<Rightarrow> real \<times> real" where
  "rank_key r = snd r"

text \<open>
  The sorted frame rankPockets computes for one criterion, as a function of the z-score
  table alone: \<open>n\<close>, the size and the quantile are those of its LHD column.
\<close>

definition rank_table ::
  "criterion \<Rightarrow> (nat \<times> real \<times> real \<times> real) list \<Rightarrow> (nat \<times> real \<times> real) list" where
  "rank_table crit df_zs =
     (let lhd = map (\<lambda>(k, mx, md, l). l) df_zs;
          n = length (filter (\<lambda>x. x \<ge> 0) lhd);
          q = quantile lhd (85 / 100)
      in ranking n (length lhd) q (map (frame crit) df_zs))"

subsection \<open>The scan, as the specification words it\<close>

text \<open>The model kind an \<^verbatim>\<open>enm\<close> argument names.\<close>

definition kind_of :: "string \<Rightarrow> enm_kind option" where
  "kind_of enm = (if enm = ''gnm'' then Some GNM else if enm = ''anm'' then Some ANM else None)"

definition res_label :: "nat \<Rightarrow> string" where
  "res_label i = ''res_'' @ str_nat i"

text \<open>
  The reference member: the model of kind \<open>k\<close> over the C-alpha selection with cutoff
  \<open>c\<close>, and its lowest \<open>n\<close> modes.
\<close>

definition spec_reference :: "env \<Rightarrow> enm_kind \<Rightarrow> real \<Rightarrow> int \<Rightarrow> atoms option \<Rightarrow> modeset outcome" where
  "spec_reference env k c n ca =
     (case build env (new_enm k ''ca'') ca (Some c) of
        Raises e \<Rightarrow> Raises e
      | Returns m \<Rightarrow> env_calcModes env m (Some n))"

text \<open>
  The perturbed member of residue \<open>i\<close>: the selection of all C-alpha atoms and the heavy
  atoms of residue \<open>i\<close>; the full model over it with the reference cutoff; its reduction
  onto the C-alpha selection; the lowest \<open>n\<close> modes of the reduced model.
\<close>

definition spec_perturbed_member ::
  "env \<Rightarrow> enm_kind \<Rightarrow> real \<Rightarrow> int \<Rightarrow> atoms option \<Rightarrow> atoms option \<Rightarrow> nat \<Rightarrow> modeset outcome" where
  "spec_perturbed_member env k c n heavy ca i =
     (case heavy of
        None \<Rightarrow> Raises AttributeError
      | Some h \<Rightarrow>
         (let sel = env_select env h (SelCalphaOrResindex i)
          in case build env (new_enm k (res_label i)) sel (Some c) of
               Raises e \<Rightarrow> Raises e
             | Returns m \<Rightarrow>
                (case env_reduceModel env m sel ca of
                   Raises e \<Rightarrow> Raises e
                 | Returns red \<Rightarrow> env_calcModes env red (Some n))))"

text \<open>
  The mean eigenvalue shift of one perturbed member against the reference: the relative
  change of each of the \<open>n\<close> eigenvalues, in percent, averaged over the \<open>n\<close> modes.
\<close>

definition spec_shift :: "nat \<Rightarrow> real list \<Rightarrow> real list \<Rightarrow> real" where
  "spec_shift n ref pert =
     sum_list (map (\<lambda>j. (pert ! j - ref ! j) / ref ! j * 100) [0 ..< n]) / real n"

text \<open>
  The z-score transform of a vector: its mean subtracted, divided by its (population)
  standard deviation; there is no quotient when the vector has entries and the standard
  deviation is zero.
\<close>

definition spec_mean :: "real list \<Rightarrow> real" where
  "spec_mean xs = sum_list xs / real (length xs)"

definition spec_std :: "real list \<Rightarrow> real" where
  "spec_std xs = sqrt (sum_list (map (\<lambda>x. (x - spec_mean xs)\<^sup>2) xs) / real (length xs))"

definition spec_zscore :: "real list \<Rightarrow> real list np" where
  "spec_zscore xs =
     (if xs \<noteq> [] \<and> spec_std xs = 0 then NonFinite
      else Finite (map (\<lambda>x. (x - spec_mean xs) / spec_std xs) xs))"

text \<open>The eigenvalues of the ensemble, one row per member (\<^verbatim>\<open>self._ensemble.getEigvals()\<close>).\<close>

definition stacked_eigvals :: "essa \<Rightarrow> real list list option" where
  "stacked_eigvals s = map_option getEigvals (s_ensemble s)"

text \<open>The models built and the solver calls made, read off the recorded calls.\<close>

fun built_models :: "event list \<Rightarrow> enm list" where
  "built_models [] = []"
| "built_models (EvBuild m # evs) = m # built_models evs"
| "built_models (ev # evs) = built_models evs"

fun solver_calls :: "event list \<Rightarrow> (enm \<times> int option) list" where
  "solver_calls [] = []"
| "solver_calls (EvCalcModes m n # evs) = (m, n) # solver_calls evs"
| "solver_calls (ev # evs) = solver_calls evs"

subsection \<open>A small structure and its collaborators, for the examples\<close>

definition demo_atoms :: atoms where
  "demo_atoms =
     \<lparr>at_title = ''demo'',
      at_list = [\<lparr>a_chid = ''A'', a_resnum = 1, a_resindex = 0\<rparr>,
                 \<lparr>a_chid = ''A'', a_resnum = 2, a_resindex = 1\<rparr>]\<rparr>"

definition demo_modes :: "enm \<Rightarrow> int option \<Rightarrow> modeset outcome" where
  "demo_modes m n =
     Returns \<lparr>ms_model = m,
              ms_eigvals = (if enm_title m = ''res_1'' then [102] else [100]),
              ms_eigvecs = []\<rparr>"

definition demo_env :: env where
  "demo_env =
     \<lparr>env_select = (\<lambda>a sel. Some a),
      env_build_error = (\<lambda>k a c. None),
      env_calcModes = demo_modes,
      env_reduceModel = (\<lambda>m tmp ca. Returns (m\<lparr>enm_coords := ca, enm_reduced := True\<rparr>)),
      env_match = (\<lambda>r m. m),
      env_which_fpocket = None,
      env_pandas_error = None,
      env_isdir = (\<lambda>d. False),
      env_pocket_files = []\<rparr>"

text \<open>
  A structure with protein heavy atoms none of which is a C-alpha: the two selections that
  ask for C-alpha atoms only (\<^verbatim>\<open>.ca\<close> and the ligand contact selection) match nothing.
\<close>

definition noca_env :: env where
  "noca_env =
     demo_env\<lparr>env_select :=
       (\<lambda>a sel. case sel of
                  SelProteinHeavyNotHetatm \<Rightarrow> Some a
                | SelCa \<Rightarrow> None
                | SelCalphaOrResindex i \<Rightarrow> Some a
                | SelLigContact d chid resnum \<Rightarrow> None)\<rparr>"

text \<open>A structure in which no selection matches anything.\<close>

definition empty_env :: env where
  "empty_env = demo_env\<lparr>env_select := (\<lambda>a sel. None)\<rparr>"

definition demo_setup :: essa where
  "demo_setup = state_of (setSystem demo_env demo_atoms Map.empty ESSA_init)"

text \<open>
  Two z-score tables. In the first, three pockets of five have a non-negative LHD, and
  the three have the same rounded ESSA_max and LHD. In the second, one pocket of eight has.
\<close>

definition demo_df :: "(nat \<times> real \<times> real \<times> real) list" where
  "demo_df = [(1, 123/100, 1/2, 501/1000), (2, 6/5, 7/10, 499/1000), (3, 2, 1/10, -1),
              (4, 118/100, 9/10, 1/2), (5, 3, 3, -1/2)]"

definition sparse_lhd :: "real list" where
  "sparse_lhd = [-2, -1, -3, -4, 1, -5, -6, -7]"

definition demo_tables :: essa where
  "demo_tables = demo_setup\<lparr>s_df_zs := Some (Finite demo_df)\<rparr>"

section \<open>Properties\<close>

subsection \<open>The ligand getters\<close>

lemma lig_loop_lig: "s_lig (state_of (lig_loop env ligs s)) = s_lig s"
  by (induction env ligs s rule: lig_loop.induct)
     (auto simp: state_of_def split: option.splits)

lemma setSystem_lig: "s_lig (state_of (setSystem env a kw s0)) = kw_pop kw ''lig'' KNone"
  by (auto simp: setSystem_def Let_def lig_loop_lig state_of_def[symmetric]
           split: option.splits kwval.splits)
     (auto simp: state_of_def)

text \<open>
  C8. On a system that setSystem left after a call with no ligand (\<^verbatim>\<open>lig\<close> absent or
  \<^verbatim>\<open>None\<close>), also when that call raised, getLigandResidueIndices and
  saveLigandResidueIndices each log the warning \<^verbatim>\<open>No ligand provided.\<close>, return \<^verbatim>\<open>None\<close>,
  raise nothing and leave the object as it is.
\<close>

theorem ligand_getters_without_ligand:
  assumes "kw ''lig'' = None \<or> kw ''lig'' = Some KNone"
    and "s = state_of (setSystem env a kw s0)"
  shows "getLigandResidueIndices s = (s, [EvWarning ''No ligand provided.''], Returns None)
       \<and> saveLigandResidueIndices s = (s, [EvWarning ''No ligand provided.''], Returns None)"
proof -
  have "kw_pop kw ''lig'' KNone = KNone"
    using assms(1) by (auto simp: kw_pop_def)
  then have "\<not> truthy (s_lig s)"
    using assms(2) by (simp add: setSystem_lig)
  then show ?thesis
    by (simp add: getLigandResidueIndices_def saveLigandResidueIndices_def)
qed

theorem ligand_getters_without_ligand_witness:
  "getLigandResidueIndices demo_setup
     = (demo_setup, [EvWarning ''No ligand provided.''], Returns None)
   \<and> saveLigandResidueIndices demo_setup
     = (demo_setup, [EvWarning ''No ligand provided.''], Returns None)"
proof -
  have h: "Map.empty ''lig'' = None \<or> Map.empty ''lig'' = Some KNone" by simp
  show ?thesis
    using ligand_getters_without_ligand [OF h, of demo_setup demo_env demo_atoms ESSA_init]
    by (simp add: demo_setup_def)
qed

subsection \<open>scanPockets without its tools\<close>

text \<open>
  C7. When fpocket is not found, or pandas does not import, scanPockets logs one warning and
  returns \<^verbatim>\<open>None\<close>; it raises nothing and the object, its z-scores included, is unchanged.
\<close>

theorem scanPockets_tool_missing:
  assumes "env_which_fpocket env = None \<or> env_pandas_error env \<noteq> None"
  shows "\<exists>w. scanPockets env s = Modelled (s, [EvWarning w], Returns None)"
  using assms by (auto simp: scanPockets_def split: option.splits)

theorem scanPockets_tool_missing_witness:
  "\<exists>w. scanPockets demo_env demo_setup = Modelled (demo_setup, [EvWarning w], Returns None)"
proof -
  have h: "env_which_fpocket demo_env = None \<or> env_pandas_error demo_env \<noteq> None"
    by (simp add: demo_env_def)
  show ?thesis
    using scanPockets_tool_missing [OF h] .
qed

subsection \<open>setSystem\<close>

text \<open>
  C10. In a setSystem call with \<^verbatim>\<open>lig\<close> absent or \<^verbatim>\<open>None\<close>, a \<^verbatim>\<open>dist\<close> argument changes
  nothing (the call does exactly what it does without it), and the attributes \<^verbatim>\<open>_dist\<close> and
  \<^verbatim>\<open>_lig_idx\<close> keep the values they had: on a new object they stay \<^verbatim>\<open>None\<close>.
\<close>

theorem setSystem_without_lig:
  assumes "kw ''lig'' = None \<or> kw ''lig'' = Some KNone"
  shows "setSystem env a (kw(''dist'' \<mapsto> d)) s0 = setSystem env a kw s0
       \<and> s_dist (state_of (setSystem env a kw s0)) = s_dist s0
       \<and> s_lig_idx (state_of (setSystem env a kw s0)) = s_lig_idx s0
       \<and> s_dist (state_of (setSystem env a (kw(''dist'' \<mapsto> d)) ESSA_init)) = None
       \<and> s_lig_idx (state_of (setSystem env a (kw(''dist'' \<mapsto> d)) ESSA_init)) = None"
proof -
  have l: "kw_pop kw ''lig'' KNone = KNone" "kw_pop (kw(''dist'' \<mapsto> d)) ''lig'' KNone = KNone"
    using assms by (auto simp: kw_pop_def)
  have eq: "setSystem env a (kw(''dist'' \<mapsto> d)) s = setSystem env a kw s" for s
    using l by (simp add: setSystem_def Let_def)
  have keep: "s_dist (state_of (setSystem env a kw s)) = s_dist s
            \<and> s_lig_idx (state_of (setSystem env a kw s)) = s_lig_idx s" for s
    using l by (simp add: setSystem_def Let_def state_of_def split: option.splits)
  show ?thesis
    using eq keep [of s0] keep [of ESSA_init] by (simp add: ESSA_init_def)
qed

theorem setSystem_without_lig_witness:
  "setSystem demo_env demo_atoms [''dist'' \<mapsto> KNum 8] ESSA_init
     = setSystem demo_env demo_atoms Map.empty ESSA_init
   \<and> s_dist (state_of (setSystem demo_env demo_atoms [''dist'' \<mapsto> KNum 8] ESSA_init)) = None
   \<and> s_lig_idx (state_of (setSystem demo_env demo_atoms [''dist'' \<mapsto> KNum 8] ESSA_init)) = None"
proof -
  have h: "Map.empty ''lig'' = None \<or> Map.empty ''lig'' = Some KNone" by simp
  show ?thesis
    using setSystem_without_lig [OF h, of demo_env demo_atoms "KNum 8" ESSA_init] by blast
qed

text \<open>
  C6, as stated, fails: setSystem has no check of its own, and what stops it is the
  attribute access \<^verbatim>\<open>self._heavy.ca\<close> on \<^verbatim>\<open>None\<close>. When the structure has protein heavy
  atoms but no C-alpha among them, \<^verbatim>\<open>.ca\<close> is \<^verbatim>\<open>None\<close>, nothing is accessed on it, and
  a call without a ligand returns normally with \<^verbatim>\<open>_ca = None\<close>.
\<close>

theorem setSystem_no_calpha_counterexample:
  "env_select noca_env demo_atoms SelProteinHeavyNotHetatm = Some demo_atoms
   \<and> env_select noca_env demo_atoms SelCa = None
   \<and> setSystem noca_env demo_atoms Map.empty ESSA_init
     = (ESSA_init\<lparr>s_atoms := Some demo_atoms, s_title := Some ''demo'',
                  s_heavy := Some demo_atoms\<rparr>, [], Returns ())"
  by (simp add: noca_env_def demo_env_def setSystem_def Let_def kw_pop_def ESSA_init_def
        getTitle_def demo_atoms_def)

text \<open>
  C6, amended. When no atom of the structure matches \<^verbatim>\<open>protein and heavy and not hetatm\<close>,
  setSystem raises AttributeError, whatever its keyword arguments; it has called no
  collaborator, and the C-alpha selection, the ensemble and the z-scores are as before.
  A missing C-alpha selection alone does not stop it: when protein heavy atoms are there,
  none of them a C-alpha, and no ligand is given (\<^verbatim>\<open>lig\<close> absent, \<^verbatim>\<open>None\<close> or empty),
  setSystem returns normally, with \<^verbatim>\<open>_ca = None\<close>.
\<close>

theorem setSystem_atoms_missing:
  "(env_select env a SelProteinHeavyNotHetatm = None \<longrightarrow>
      (\<exists>s. setSystem env a kw s0 = (s, [], Raises AttributeError)
           \<and> s_ca s = s_ca s0 \<and> s_ensemble s = s_ensemble s0 \<and> s_zscore s = s_zscore s0))
   \<and> (env_select env a SelProteinHeavyNotHetatm = Some h \<and> env_select env h SelCa = None
        \<and> \<not> truthy (kw_pop kw ''lig'' KNone) \<longrightarrow>
      setSystem env a kw s0
        = (s0\<lparr>s_atoms := Some a, s_title := Some (getTitle a), s_lig := kw_pop kw ''lig'' KNone,
               s_heavy := Some h, s_ca := None\<rparr>, [], Returns ()))"
  by (simp add: setSystem_def Let_def)

theorem setSystem_atoms_missing_witness:
  "(\<exists>s. setSystem empty_env demo_atoms Map.empty ESSA_init = (s, [], Raises AttributeError)
           \<and> s_ca s = s_ca ESSA_init \<and> s_ensemble s = s_ensemble ESSA_init
           \<and> s_zscore s = s_zscore ESSA_init)
   \<and> setSystem noca_env demo_atoms [''dist'' \<mapsto> KNum 8] ESSA_init
        = (ESSA_init\<lparr>s_atoms := Some demo_atoms, s_title := Some (getTitle demo_atoms),
               s_lig := KNone, s_heavy := Some demo_atoms, s_ca := None\<rparr>, [], Returns ())"
proof -
  have h1: "env_select empty_env demo_atoms SelProteinHeavyNotHetatm = None"
    by (simp add: empty_env_def demo_env_def)
  have h2: "env_select noca_env demo_atoms SelProteinHeavyNotHetatm = Some demo_atoms
            \<and> env_select noca_env demo_atoms SelCa = None
            \<and> \<not> truthy (kw_pop [''dist'' \<mapsto> KNum 8] ''lig'' KNone)"
    by (simp add: noca_env_def demo_env_def kw_pop_def)
  have k: "kw_pop [''dist'' \<mapsto> KNum 8] ''lig'' KNone = KNone"
    by (simp add: kw_pop_def)
  show ?thesis
    using setSystem_atoms_missing [of empty_env demo_atoms Map.empty ESSA_init demo_atoms]
      setSystem_atoms_missing [of noca_env demo_atoms "[''dist'' \<mapsto> KNum 8]" ESSA_init demo_atoms]
      h1 h2 k
    by simp
qed

subsection \<open>scanResidues with another model kind\<close>

lemma bind_run_Returns [simp]:
  "bind_run (s, l, Returns x) f = (case f s x of (s', l', r') \<Rightarrow> (s', l @ l', r'))"
  by (simp add: bind_run_def)

lemma bind_run_Raises [simp]: "bind_run (s, l, Raises e) f = (s, l, Raises e)"
  by (simp add: bind_run_def)

text \<open>
  C9, as stated, fails in its last part: before the unbound name is reached the call has
  assigned \<^verbatim>\<open>self._ensemble = ModeEnsemble(...)\<close>, so an ensemble (with no member) is there
  afterwards where there was none.
\<close>

theorem scanResidues_unknown_enm_counterexample:
  "s_ensemble demo_setup = None
   \<and> outcome_of (scanResidues demo_env 10 ''enm'' None demo_setup) = Raises UnboundLocalError
   \<and> s_ensemble (state_of (scanResidues demo_env 10 ''enm'' None demo_setup))
     = Some \<lparr>ens_title = ''demo'', ens_atoms = Some demo_atoms, ens_modesets = [],
             ens_labels = None\<rparr>"
  by (simp add: demo_setup_def demo_env_def setSystem_def Let_def kw_pop_def ESSA_init_def
        getTitle_def demo_atoms_def scanResidues_def ref_branch_def add_modes_def
        state_of_def outcome_of_def fmt_def setAtoms_def ModeEnsemble_def)

text \<open>
  C9, amended. For every \<^verbatim>\<open>enm\<close> other than \<^verbatim>\<open>'gnm'\<close> and \<^verbatim>\<open>'anm'\<close>, scanResidues raises
  the unbound-name error before it builds a model or calls the solver (it has called no
  collaborator). No mode set is added and the z-scores keep the value they had; what the
  call has assigned by then is \<^verbatim>\<open>_n_modes\<close>, \<^verbatim>\<open>_enm\<close>, \<^verbatim>\<open>_labels = ['ref']\<close> and a new
  ensemble without members over the C-alpha selection.
\<close>

theorem scanResidues_unknown_enm:
  assumes "enm \<noteq> ''gnm''" and "enm \<noteq> ''anm''"
  shows "scanResidues env n_modes enm cutoff s0
       = (s0\<lparr>s_n_modes := Some n_modes, s_enm := Some enm,
             s_ensemble := Some (setAtoms (ModeEnsemble (fmt (s_title s0))) (s_ca s0)),
             s_labels := Some [''ref'']\<rparr>,
          [], Raises UnboundLocalError)"
  using assms by (simp add: scanResidues_def Let_def ref_branch_def add_modes_def)

theorem scanResidues_unknown_enm_witness:
  "scanResidues demo_env 10 ''enm'' None demo_setup
       = (demo_setup\<lparr>s_n_modes := Some 10, s_enm := Some ''enm'',
             s_ensemble :=
               Some (setAtoms (ModeEnsemble (fmt (s_title demo_setup))) (s_ca demo_setup)),
             s_labels := Some [''ref'']\<rparr>,
          [], Raises UnboundLocalError)"
proof -
  have h: "''enm'' \<noteq> ''gnm''" "''enm'' \<noteq> ''anm''" by simp_all
  show ?thesis using scanResidues_unknown_enm [OF h] .
qed

subsection \<open>rankPockets\<close>

lemma select_rows_map: "select_rows xs (map P (map g xs)) = filter (\<lambda>x. P (g x)) xs"
  unfolding select_rows_def
  by (induction xs) auto

lemma lhd_mask_threshold:
  "lhd_mask (length (filter (\<lambda>x. x \<ge> 0) col)) (length col) (quantile col (85 / 100)) col'
     = map (\<lambda>x. ge_np x (spec_threshold col)) col'"
  by (simp add: lhd_mask_def spec_threshold_def Let_def ge_np_def)

lemma frame_lhd: "snd (snd (frame crit r)) = lhd_of r"
  by (cases crit; cases r) (simp_all add: lhd_of_def)

lemma lhd_col: "map (\<lambda>(k, mx, md, l). l) df = map lhd_of df"
  by (simp add: lhd_of_def split_def)

lemma rounded_two_steps:
  "map (\<lambda>(k, e, l). (k, e, np_round 2 l)) (map (\<lambda>(k, e, l). (k, np_round 1 e, l)) zf)
     = spec_rounded zf"
  by (simp add: spec_rounded_def split_def)

lemma kept_frames:
  "select_rows (map (frame crit) df)
     (map (\<lambda>x. ge_np x (spec_threshold (map lhd_of df)))
        (map (\<lambda>r. snd (snd r)) (map (frame crit) df)))
   = map (frame crit) (spec_kept df)"
proof -
  have "select_rows (map (frame crit) df)
          (map (\<lambda>x. ge_np x (spec_threshold (map lhd_of df)))
             (map (\<lambda>r. snd (snd r)) (map (frame crit) df)))
      = filter (\<lambda>x. ge_np (snd (snd x)) (spec_threshold (map lhd_of df))) (map (frame crit) df)"
    by (rule select_rows_map)
  also have "\<dots> = map (frame crit) (spec_kept df)"
    by (simp add: filter_map comp_def frame_lhd spec_kept_def)
  finally show ?thesis .
qed

lemma rank_table_eq:
  "rank_table crit df = sort_values_desc (spec_rounded (map (frame crit) (spec_kept df)))"
proof -
  have "rank_table crit df
      = sort_values_desc (spec_rounded (select_rows (map (frame crit) df)
          (lhd_mask (length (filter (\<lambda>x. x \<ge> 0) (map lhd_of df))) (length (map lhd_of df))
             (quantile (map lhd_of df) (85 / 100))
             (map (\<lambda>r. snd (snd r)) (map (frame crit) df)))))"
    unfolding rank_table_def ranking_def Let_def lhd_col rounded_two_steps ..
  also have "\<dots> = sort_values_desc (spec_rounded (map (frame crit) (spec_kept df)))"
    unfolding lhd_mask_threshold kept_frames ..
  finally show ?thesis .
qed

lemma frame_maps:
  "map (\<lambda>(k, mx, md, l). (k, mx, l)) df = map (frame ByMax) df"
  "map (\<lambda>(k, mx, md, l). (k, md, l)) df = map (frame ByMed) df"
  by (induction df) auto

lemma length_rank_table: "length (rank_table crit df) = length (spec_kept df)"
  by (simp add: rank_table_eq sort_values_desc_def spec_rounded_def)

lemma rankPockets_stores:
  assumes "env_pandas_error env = None" and "s_df_zs s = Some (Finite df)"
  shows "rankPockets env s =
     Modelled (s\<lparr>s_idx_max := Some (map fst (rank_table ByMax df)),
                s_idx_med := Some (map fst (rank_table ByMed df)),
                s_pocket_ranks := Some (zip [1 ..< length (rank_table ByMax df) + 1]
                     (zip (map fst (rank_table ByMax df)) (map fst (rank_table ByMed df))))\<rparr>,
               [], Returns ())"
proof -
  have "length (rank_table ByMed df) = length (rank_table ByMax df)"
    by (simp add: length_rank_table)
  then show ?thesis
    using assms
    unfolding rankPockets_def rank_table_def frame_maps
    by (simp add: Let_def)
qed

lemma fst_rounded: "map fst (spec_rounded zf) = map fst zf"
  by (simp add: spec_rounded_def split_def comp_def)

lemma fst_frame: "fst (frame crit r) = fst r"
  by (cases crit; cases r) simp_all

lemma mset_idx: "mset (map fst (rank_table crit df)) = mset (map fst (spec_kept df))"
proof -
  have "mset (map fst (rank_table crit df)) = image_mset fst (mset (rank_table crit df))"
    by simp
  also have "\<dots> = image_mset fst (mset (spec_rounded (map (frame crit) (spec_kept df))))"
    by (simp add: rank_table_eq sort_values_desc_def)
  also have "\<dots> = mset (map fst (spec_rounded (map (frame crit) (spec_kept df))))"
    by simp
  also have "\<dots> = mset (map fst (spec_kept df))"
    by (simp add: fst_rounded comp_def fst_frame)
  finally show ?thesis .
qed

text \<open>
  C2. On a z-score table, rankPockets returns, and each of its two rankings lists exactly
  the pockets whose normalized LHD is at least the threshold: 0 when the number of pockets
  of non-negative LHD is at least a quarter of all pockets (integer division), the 85th
  percentile of the LHD column otherwise. The threshold is the same for both, so the two
  rankings have the same length.
\<close>

theorem rankPockets_threshold:
  assumes "env_pandas_error env = None" and "s_df_zs s = Some (Finite df)"
  shows "\<exists>s' imax imed.
           rankPockets env s = Modelled (s', [], Returns ())
         \<and> s_idx_max s' = Some imax \<and> s_idx_med s' = Some imed
         \<and> mset imax = mset (map fst (spec_kept df))
         \<and> mset imed = mset (map fst (spec_kept df))
         \<and> length imax = length imed"
proof -
  have "length (map fst (rank_table ByMax df)) = length (map fst (rank_table ByMed df))"
    by (simp add: length_rank_table)
  then show ?thesis
    using rankPockets_stores [OF assms] mset_idx [of ByMax df] mset_idx [of ByMed df]
    by auto
qed

lemma threshold_dense: "spec_threshold (map lhd_of demo_df) = Finite 0"
  by (simp add: demo_df_def spec_threshold_def lhd_of_def Let_def)

lemma quantile_sparse: "quantile sparse_lhd (85 / 100) = Finite (- 105 / 100)"
  by (simp add: sparse_lhd_def quantile_def Let_def)

lemma threshold_sparse: "spec_threshold sparse_lhd = quantile sparse_lhd (85 / 100)"
  by (simp add: sparse_lhd_def spec_threshold_def Let_def)

lemma kept_dense: "map fst (spec_kept demo_df) = [1, 2, 4]"
  by (simp add: spec_kept_def threshold_dense ge_np_def)
     (simp add: demo_df_def lhd_of_def)

theorem rankPockets_threshold_witness:
  "spec_threshold sparse_lhd = Finite (- 105 / 100)
   \<and> (\<exists>s' imax imed.
           rankPockets demo_env demo_tables = Modelled (s', [], Returns ())
         \<and> s_idx_max s' = Some imax \<and> s_idx_med s' = Some imed
         \<and> mset imax = mset [1, 2, 4] \<and> mset imed = mset [1, 2, 4]
         \<and> length imax = length imed)"
proof -
  have h1: "env_pandas_error demo_env = None"
    by (simp add: demo_env_def)
  have h2: "s_df_zs demo_tables = Some (Finite demo_df)"
    by (simp add: demo_tables_def)
  show ?thesis
    using rankPockets_threshold [OF h1 h2] threshold_sparse quantile_sparse kept_dense
    by simp
qed

lemma desc_key: "sort_key_desc a \<le> sort_key_desc b \<longleftrightarrow> rank_key b \<le> rank_key a"
  by (cases a; cases b) (auto simp: sort_key_desc_def rank_key_def)

lemma sorted_desc: "sorted_wrt (\<lambda>a b. rank_key b \<le> rank_key a) (sort_values_desc zf)"
proof -
  have "sorted (map sort_key_desc (sort_key sort_key_desc zf))"
    by (rule sorted_sort_key)
  then show ?thesis
    by (simp add: sorted_map sort_values_desc_def desc_key)
qed

lemma key_eq: "rank_key x = k \<longleftrightarrow> sort_key_desc x = (- fst k, - snd k)"
  by (cases x; cases k) (auto simp: sort_key_desc_def rank_key_def)

lemma stable_desc:
  "filter (\<lambda>x. rank_key x = k) (sort_values_desc zf) = filter (\<lambda>x. rank_key x = k) zf"
  unfolding key_eq sort_values_desc_def by (rule sort_key_stable)

lemma sorted_fst_filter:
  "sorted_wrt (<) (map fst xs) \<Longrightarrow> sorted_wrt (<) (map fst (filter P xs))"
  by (induction xs) auto

lemma ties_ascending:
  assumes "sorted_wrt (<) (map fst df)"
  shows "sorted_wrt (<) (map fst (filter (\<lambda>x. rank_key x = k) (rank_table crit df)))"
proof -
  have "sorted_wrt (<) (map fst (spec_kept df))"
    unfolding spec_kept_def using assms by (rule sorted_fst_filter)
  then have "sorted_wrt (<) (map fst (spec_rounded (map (frame crit) (spec_kept df))))"
    by (simp add: fst_rounded comp_def fst_frame)
  then have "sorted_wrt (<) (map fst (filter (\<lambda>x. rank_key x = k)
                (spec_rounded (map (frame crit) (spec_kept df)))))"
    by (rule sorted_fst_filter)
  then show ?thesis
    by (simp only: rank_table_eq stable_desc)
qed

text \<open>
  C3. For each criterion (max, median), rankPockets returns and stores the pocket numbers
  of a frame that depends on the z-score table alone and that is: the pockets passing the
  LHD filter, with the ESSA column rounded to 1 decimal and the LHD column to 2 decimals
  (as a multiset); in descending lexicographic order of (ESSA criterion, LHD); and stable:
  the rows of any one key are in the order they have in the table, which is the ascending
  order of pocket numbers when the table lists its pockets in ascending order.
\<close>

theorem rankPockets_ranking:
  assumes "env_pandas_error env = None" and "s_df_zs s = Some (Finite df)"
  shows "\<exists>s'. rankPockets env s = Modelled (s', [], Returns ())
         \<and> s_idx crit s' = Some (map fst (rank_table crit df))
         \<and> mset (rank_table crit df) = mset (spec_rounded (map (frame crit) (spec_kept df)))
         \<and> sorted_wrt (\<lambda>a b. rank_key b \<le> rank_key a) (rank_table crit df)
         \<and> (\<forall>k. filter (\<lambda>x. rank_key x = k) (rank_table crit df)
                = filter (\<lambda>x. rank_key x = k) (spec_rounded (map (frame crit) (spec_kept df))))
         \<and> (sorted_wrt (<) (map fst df) \<longrightarrow>
              (\<forall>k. sorted_wrt (<) (map fst (filter (\<lambda>x. rank_key x = k) (rank_table crit df)))))"
proof -
  have a: "s_idx crit (s\<lparr>s_idx_max := Some (map fst (rank_table ByMax df)),
                s_idx_med := Some (map fst (rank_table ByMed df)),
                s_pocket_ranks := p\<rparr>) = Some (map fst (rank_table crit df))" for p
    by (cases crit) simp_all
  have b: "mset (rank_table crit df) = mset (spec_rounded (map (frame crit) (spec_kept df)))"
    by (simp add: rank_table_eq sort_values_desc_def)
  have c: "sorted_wrt (\<lambda>a b. rank_key b \<le> rank_key a) (rank_table crit df)"
    by (simp only: rank_table_eq sorted_desc)
  have d: "filter (\<lambda>x. rank_key x = k) (rank_table crit df)
                = filter (\<lambda>x. rank_key x = k) (spec_rounded (map (frame crit) (spec_kept df)))" for k
    by (simp only: rank_table_eq stable_desc)
  show ?thesis
    using rankPockets_stores [OF assms] a b c d ties_ascending [of df _ crit]
    by auto
qed

lemma rank_max_dense: "map fst (rank_table ByMax demo_df) = [1, 2, 4]"
  by (simp add: rank_table_eq spec_kept_def demo_df_def spec_threshold_def lhd_of_def ge_np_def
        spec_rounded_def np_round_def rint_def Let_def sort_values_desc_def sort_key_desc_def)

lemma rank_med_dense: "map fst (rank_table ByMed demo_df) = [4, 2, 1]"
  by (simp add: rank_table_eq spec_kept_def demo_df_def spec_threshold_def lhd_of_def ge_np_def
        spec_rounded_def np_round_def rint_def Let_def sort_values_desc_def sort_key_desc_def)

theorem rankPockets_ranking_witness:
  "\<exists>s'. rankPockets demo_env demo_tables = Modelled (s', [], Returns ())
        \<and> s_idx_max s' = Some [1, 2, 4] \<and> s_idx_med s' = Some [4, 2, 1]"
proof -
  have h1: "env_pandas_error demo_env = None"
    by (simp add: demo_env_def)
  have h2: "s_df_zs demo_tables = Some (Finite demo_df)"
    by (simp add: demo_tables_def)
  show ?thesis
    using rankPockets_ranking [OF h1 h2, of ByMax] rankPockets_ranking [OF h1 h2, of ByMed]
      rank_max_dense rank_med_dense
    by auto
qed

subsection \<open>A completed scan\<close>

lemma bind_run_ReturnsE:
  assumes "bind_run r f = (s', l, Returns y)"
  shows "\<exists>s1 l1 x l2. r = (s1, l1, Returns x) \<and> f s1 x = (s', l2, Returns y) \<and> l = l1 @ l2"
  using assms by (auto simp: bind_run_def split: prod.splits outcome.splits)

lemma build_Returns:
  assumes "build env m0 coords cutoff = Returns m"
  shows "m = m0\<lparr>enm_coords := coords,
                 enm_cutoff := Some (case cutoff of None \<Rightarrow> default_cutoff (enm_kind m0) | Some c \<Rightarrow> c)\<rparr>"
  using assms by (auto simp: build_def Let_def split: option.splits)

lemma add_modes_ok:
  assumes "add_modes env n s local = (s', l, Returns ())"
  shows "\<exists>m ms e. local = Some m \<and> env_calcModes env m n = Returns ms \<and> s_ensemble s = Some e
            \<and> s' = s\<lparr>s_ensemble := Some (addModeSet e ms)\<rparr> \<and> l = [EvCalcModes m n]"
  using assms by (auto simp: add_modes_def split: option.splits outcome.splits)

lemma pert_branch_ok:
  assumes "pert_branch env tag k i tmp s local = (s', l, Returns r)"
  shows "s' = s \<and> ((s_enm s = Some tag \<and> (\<exists>m. build env (new_enm k (res_label i)) tmp (s_cutoff s) = Returns m
                        \<and> l = [EvBuild m] \<and> r = Some m))
                  \<or> (s_enm s \<noteq> Some tag \<and> l = [] \<and> r = local))"
  using assms by (auto simp: pert_branch_def res_label_def split: if_splits outcome.splits)

lemma reduce_and_add_ok:
  assumes "reduce_and_add env tmp s local = (s', l, Returns ())"
  shows "\<exists>m red ms e ls. local = Some m \<and> env_reduceModel env m tmp (s_ca s) = Returns red
           \<and> env_calcModes env red (s_n_modes s) = Returns ms
           \<and> s_ensemble s = Some e \<and> s_labels s = Some ls
           \<and> s' = s\<lparr>s_ensemble := Some (addModeSet e ms), s_labels := Some (ls @ [enm_title m])\<rparr>
           \<and> l = [EvReduce red, EvCalcModes red (s_n_modes s)]"
proof -
  from assms obtain m where m: "local = Some m"
    by (auto simp: reduce_and_add_def split: option.splits)
  from assms m obtain red where red: "env_reduceModel env m tmp (s_ca s) = Returns red"
    by (auto simp: reduce_and_add_def split: outcome.splits)
  define k :: "essa \<Rightarrow> unit \<Rightarrow> unit run" where "k = (\<lambda>s u.
               (case s_labels s of
                  None \<Rightarrow> (s, [], Raises AttributeError)
                | Some ls \<Rightarrow>
                   (s\<lparr>s_labels := Some (ls @ [enm_title m])\<rparr>, [], Returns ())))"
  from assms m red have
    "\<exists>l'. bind_run (add_modes env (s_n_modes s) s (Some red)) k = (s', l', Returns ())
         \<and> l = EvReduce red # l'"
    by (auto simp: reduce_and_add_def k_def split: prod.splits)
  then obtain l' where
    t: "bind_run (add_modes env (s_n_modes s) s (Some red)) k = (s', l', Returns ())"
    and d: "l = EvReduce red # l'"
    by blast
  from bind_run_ReturnsE [OF t] obtain s1 l1 l2 where
    a: "add_modes env (s_n_modes s) s (Some red) = (s1, l1, Returns ())"
    and b: "k s1 () = (s', l2, Returns ())"
    and c: "l' = l1 @ l2"
    by auto
  from add_modes_ok [OF a] obtain ms e where
    e: "env_calcModes env red (s_n_modes s) = Returns ms" "s_ensemble s = Some e"
       "s1 = s\<lparr>s_ensemble := Some (addModeSet e ms)\<rparr>" "l1 = [EvCalcModes red (s_n_modes s)]"
    by auto
  from b e obtain ls where
    f: "s_labels s = Some ls" "s' = s1\<lparr>s_labels := Some (ls @ [enm_title m])\<rparr>" "l2 = []"
    by (auto simp: k_def split: option.splits)
  show ?thesis
    using m red e f c d by simp
qed

lemma scan_residue_ok:
  assumes "scan_residue env i s = (s', l, Returns ())"
  shows "\<exists>enm k h m red ms e ls.
           s_enm s = Some enm \<and> kind_of enm = Some k \<and> s_heavy s = Some h
         \<and> build env (new_enm k (res_label i)) (env_select env h (SelCalphaOrResindex i)) (s_cutoff s) = Returns m
         \<and> env_reduceModel env m (env_select env h (SelCalphaOrResindex i)) (s_ca s) = Returns red
         \<and> env_calcModes env red (s_n_modes s) = Returns ms
         \<and> s_ensemble s = Some e \<and> s_labels s = Some ls
         \<and> s' = s\<lparr>s_ensemble := Some (addModeSet e ms), s_labels := Some (ls @ [enm_title m])\<rparr>
         \<and> l = [EvUpdate (i + 1), EvBuild m, EvReduce red, EvCalcModes red (s_n_modes s)]"
proof -
  from assms obtain h where h: "s_heavy s = Some h"
    by (auto simp: scan_residue_def split: option.splits)
  define tmp where "tmp = env_select env h (SelCalphaOrResindex i)"
  define body where "body = bind_run (pert_branch env ''gnm'' GNM i tmp s None) (\<lambda>s local.
               bind_run (pert_branch env ''anm'' ANM i tmp s local) (\<lambda>s local.
               reduce_and_add env tmp s local))"
  from assms h have "\<exists>l'. body = (s', l', Returns ()) \<and> l = EvUpdate (i + 1) # l'"
    by (auto simp: scan_residue_def Let_def tmp_def body_def split: prod.splits)
  then obtain l' where t: "body = (s', l', Returns ())" and ll: "l = EvUpdate (i + 1) # l'"
    by blast
  from bind_run_ReturnsE [OF t [unfolded body_def]] obtain s1 l1 loc1 l23 where
    p1: "pert_branch env ''gnm'' GNM i tmp s None = (s1, l1, Returns loc1)"
    and t2: "bind_run (pert_branch env ''anm'' ANM i tmp s1 loc1) (\<lambda>s local.
               reduce_and_add env tmp s local) = (s', l23, Returns ())"
    and l1: "l' = l1 @ l23"
    by auto
  from bind_run_ReturnsE [OF t2] obtain s2 l2 loc2 l3 where
    p2: "pert_branch env ''anm'' ANM i tmp s1 loc1 = (s2, l2, Returns loc2)"
    and p3: "reduce_and_add env tmp s2 loc2 = (s', l3, Returns ())"
    and l2: "l23 = l2 @ l3"
    by auto
  from pert_branch_ok [OF p1] have s1: "s1 = s" by simp
  from pert_branch_ok [OF p2] have s2: "s2 = s" by (simp add: s1)
  from reduce_and_add_ok [OF p3] obtain m red ms e ls where
    r: "loc2 = Some m" "env_reduceModel env m tmp (s_ca s) = Returns red"
       "env_calcModes env red (s_n_modes s) = Returns ms"
       "s_ensemble s = Some e" "s_labels s = Some ls"
       "s' = s\<lparr>s_ensemble := Some (addModeSet e ms), s_labels := Some (ls @ [enm_title m])\<rparr>"
       "l3 = [EvReduce red, EvCalcModes red (s_n_modes s)]"
    unfolding s2 by auto
  have g: "(s_enm s = Some ''gnm'' \<and> (\<exists>m1. build env (new_enm GNM (res_label i)) tmp (s_cutoff s) = Returns m1
                        \<and> l1 = [EvBuild m1] \<and> loc1 = Some m1))
           \<or> (s_enm s \<noteq> Some ''gnm'' \<and> l1 = [] \<and> loc1 = None)"
    using pert_branch_ok [OF p1] by blast
  have a: "(s_enm s = Some ''anm'' \<and> (\<exists>m2. build env (new_enm ANM (res_label i)) tmp (s_cutoff s) = Returns m2
                        \<and> l2 = [EvBuild m2] \<and> loc2 = Some m2))
           \<or> (s_enm s \<noteq> Some ''anm'' \<and> l2 = [] \<and> loc2 = loc1)"
    using pert_branch_ok [OF p2] unfolding s1 by blast
  have kg: "kind_of ''gnm'' = Some GNM" and ka: "kind_of ''anm'' = Some ANM"
    by (simp_all add: kind_of_def)
  have b: "\<exists>enm k. s_enm s = Some enm \<and> kind_of enm = Some k
          \<and> build env (new_enm k (res_label i)) tmp (s_cutoff s) = Returns m \<and> l1 @ l2 = [EvBuild m]"
  proof (cases "s_enm s = Some ''gnm''")
    case True
    then have "s_enm s \<noteq> Some ''anm''" by simp
    with a have "l2 = []" "loc2 = loc1" by blast+
    moreover from g True obtain m1 where
      "build env (new_enm GNM (res_label i)) tmp (s_cutoff s) = Returns m1" "l1 = [EvBuild m1]"
      "loc1 = Some m1" by blast
    ultimately show ?thesis using r(1) True kg by auto
  next
    case False
    with g have l1: "l1 = []" "loc1 = None" by blast+
    show ?thesis
    proof (cases "s_enm s = Some ''anm''")
      case True
      with a obtain m2 where
        "build env (new_enm ANM (res_label i)) tmp (s_cutoff s) = Returns m2" "l2 = [EvBuild m2]"
        "loc2 = Some m2" by blast
      then show ?thesis using r(1) True ka l1 by auto
    next
      case False
      with a have "loc2 = loc1" by blast
      with l1 r(1) show ?thesis by simp
    qed
  qed
  then obtain enm k where
    c: "s_enm s = Some enm" "kind_of enm = Some k"
       "build env (new_enm k (res_label i)) tmp (s_cutoff s) = Returns m" "l1 @ l2 = [EvBuild m]"
    by blast
  have "l = [EvUpdate (i + 1), EvBuild m, EvReduce red, EvCalcModes red (s_n_modes s)]"
    using ll l1 l2 c(4) r(7) by simp
  then show ?thesis
    using h r(2-6) c(1-3) unfolding tmp_def by blast
qed

lemma built_models_append: "built_models (a @ b) = built_models a @ built_models b"
  by (induction a rule: built_models.induct) simp_all

lemma solver_calls_append: "solver_calls (a @ b) = solver_calls a @ solver_calls b"
  by (induction a rule: solver_calls.induct) simp_all

lemma perturbed_member_eq:
  assumes "s_heavy s = Some h" "s_cutoff s = Some c" "s_n_modes s = Some n"
    and "build env (new_enm k (res_label i)) (env_select env h (SelCalphaOrResindex i)) (s_cutoff s) = Returns m"
    and "env_reduceModel env m (env_select env h (SelCalphaOrResindex i)) (s_ca s) = Returns red"
    and "env_calcModes env red (s_n_modes s) = Returns ms"
  shows "spec_perturbed_member env k c n (s_heavy s) (s_ca s) i = Returns ms"
  using assms by (simp add: spec_perturbed_member_def Let_def)

lemma scan_loop_ok:
  assumes "scan_loop env is s = (s', l, Returns ())"
    and "s_ensemble s = Some e" and "s_labels s = Some ls"
    and "s_enm s = Some enm" and "kind_of enm = Some k"
    and "s_cutoff s = Some c" and "s_n_modes s = Some n"
  shows "\<exists>mss. map (spec_perturbed_member env k c n (s_heavy s) (s_ca s)) is = map Returns mss
         \<and> s_ensemble s' = Some (e\<lparr>ens_modesets := ens_modesets e @ mss\<rparr>)
         \<and> s_labels s' = Some (ls @ map res_label is)
         \<and> s_ca s' = s_ca s \<and> s_cutoff s' = s_cutoff s \<and> s_zscore s' = s_zscore s
         \<and> map enm_title (built_models l) = map res_label is
         \<and> list_all (\<lambda>m. enm_cutoff m = Some c) (built_models l)
         \<and> list_all (\<lambda>p. snd p = Some n) (solver_calls l)
         \<and> length (solver_calls l) = length is"
  using assms
proof (induction "is" arbitrary: s e ls l)
  case Nil
  then show ?case by simp
next
  case (Cons i "is")
  from Cons.prems(1) have "bind_run (scan_residue env i s) (\<lambda>s' _. scan_loop env is s') = (s', l, Returns ())"
    by simp
  from bind_run_ReturnsE [OF this] obtain s1 l1 l2 where
    r1: "scan_residue env i s = (s1, l1, Returns ())"
    and r2: "scan_loop env is s1 = (s', l2, Returns ())"
    and l: "l = l1 @ l2"
    by auto
  from scan_residue_ok [OF r1] Cons.prems(2-7) obtain h m red ms where
    f: "s_heavy s = Some h"
       "build env (new_enm k (res_label i)) (env_select env h (SelCalphaOrResindex i)) (s_cutoff s) = Returns m"
       "env_reduceModel env m (env_select env h (SelCalphaOrResindex i)) (s_ca s) = Returns red"
       "env_calcModes env red (s_n_modes s) = Returns ms"
       "s1 = s\<lparr>s_ensemble := Some (addModeSet e ms), s_labels := Some (ls @ [enm_title m])\<rparr>"
       "l1 = [EvUpdate (i + 1), EvBuild m, EvReduce red, EvCalcModes red (s_n_modes s)]"
    by auto
  have m: "enm_title m = res_label i" "enm_cutoff m = Some c"
    using build_Returns [OF f(2)] Cons.prems(6) by (simp_all add: new_enm_def)
  have pm: "spec_perturbed_member env k c n (s_heavy s) (s_ca s) i = Returns ms"
    using perturbed_member_eq [OF f(1) Cons.prems(6,7) f(2,3,4)] .
  have s1: "s_ensemble s1 = Some (addModeSet e ms)" "s_labels s1 = Some (ls @ [res_label i])"
    "s_enm s1 = Some enm" "s_cutoff s1 = Some c" "s_n_modes s1 = Some n"
    "s_heavy s1 = s_heavy s" "s_ca s1 = s_ca s" "s_zscore s1 = s_zscore s"
    using f(5) m Cons.prems(4,6,7) by simp_all
  from Cons.IH [OF r2 s1(1,2,3) Cons.prems(5) s1(4,5)] obtain mss where
    ih: "map (spec_perturbed_member env k c n (s_heavy s1) (s_ca s1)) is = map Returns mss"
        "s_ensemble s' = Some ((addModeSet e ms)\<lparr>ens_modesets := ens_modesets (addModeSet e ms) @ mss\<rparr>)"
        "s_labels s' = Some ((ls @ [res_label i]) @ map res_label is)"
        "s_ca s' = s_ca s1" "s_cutoff s' = s_cutoff s1" "s_zscore s' = s_zscore s1"
        "map enm_title (built_models l2) = map res_label is"
        "list_all (\<lambda>m. enm_cutoff m = Some c) (built_models l2)"
        "list_all (\<lambda>p. snd p = Some n) (solver_calls l2)"
        "length (solver_calls l2) = length is"
    by blast
  have e: "(addModeSet e ms)\<lparr>ens_modesets := ens_modesets (addModeSet e ms) @ mss\<rparr>
           = e\<lparr>ens_modesets := ens_modesets e @ (ms # mss)\<rparr>"
    by (simp add: addModeSet_def)
  have bl: "built_models l = m # built_models l2" "solver_calls l = (red, Some n) # solver_calls l2"
    using l f(6) Cons.prems(7) by (simp_all add: built_models_append solver_calls_append)
  have "map (spec_perturbed_member env k c n (s_heavy s) (s_ca s)) (i # is) = map Returns (ms # mss)"
    using pm ih(1) s1(6,7) by simp
  moreover have "s_ensemble s' = Some (e\<lparr>ens_modesets := ens_modesets e @ (ms # mss)\<rparr>)"
    using ih(2) e by simp
  moreover have "s_labels s' = Some (ls @ map res_label (i # is))"
    using ih(3) by simp
  moreover have "s_ca s' = s_ca s" "s_cutoff s' = s_cutoff s" "s_zscore s' = s_zscore s"
    using ih(4,5,6) s1 Cons.prems(6) by simp_all
  moreover have "map enm_title (built_models l) = map res_label (i # is)"
    using bl ih(7) m by simp
  moreover have "list_all (\<lambda>m. enm_cutoff m = Some c) (built_models l)"
    using bl ih(8) m by simp
  moreover have "list_all (\<lambda>p. snd p = Some n) (solver_calls l)"
    using bl ih(9) by simp
  moreover have "length (solver_calls l) = length (i # is)"
    using bl ih(10) by simp
  ultimately show ?case by blast
qed

lemma reference_model_ok:
  assumes "reference_model env k cutoff s = (s', l, Returns m)"
  shows "build env (new_enm k ''ca'') (s_ca s) cutoff = Returns m
         \<and> s' = s\<lparr>s_cutoff := enm_cutoff m\<rparr> \<and> l = [EvBuild m]"
proof (cases cutoff)
  case None
  with assms show ?thesis
    by (auto simp: reference_model_def split: outcome.splits)
next
  case (Some c)
  with assms have b: "build env (new_enm k ''ca'') (s_ca s) (Some c) = Returns m"
    and s: "s' = s\<lparr>s_cutoff := Some c\<rparr>" and l: "l = [EvBuild m]"
    by (auto simp: reference_model_def Let_def split: outcome.splits)
  from build_Returns [OF b] have "enm_cutoff m = Some c" by simp
  with b s l Some show ?thesis by simp
qed

lemma ref_branch_ok:
  assumes "ref_branch env tag k cutoff s local = (s', l, Returns r)"
  shows "(s_enm s = Some tag \<and> (\<exists>m. build env (new_enm k ''ca'') (s_ca s) cutoff = Returns m
            \<and> s' = s\<lparr>s_cutoff := enm_cutoff m\<rparr> \<and> l = [EvBuild m] \<and> r = Some m))
       \<or> (s_enm s \<noteq> Some tag \<and> s' = s \<and> l = [] \<and> r = local)"
proof (cases "s_enm s = Some tag")
  case True
  with assms have
    "bind_run (reference_model env k cutoff s) (\<lambda>s' m. (s', [], Returns (Some m))) = (s', l, Returns r)"
    by (simp add: ref_branch_def)
  from bind_run_ReturnsE [OF this] obtain s1 l1 m l2 where
    a: "reference_model env k cutoff s = (s1, l1, Returns m)"
    and b: "(s1, [], Returns (Some m)) = (s', l2, Returns r)" and c: "l = l1 @ l2"
    by blast
  from reference_model_ok [OF a] b c True show ?thesis by auto
next
  case False
  with assms show ?thesis by (simp add: ref_branch_def)
qed

lemma label_and_match_ok:
  assumes "label_and_match env s = (s', l, Returns ())"
  shows "\<exists>e ls. s_ensemble s = Some e \<and> s_labels s = Some ls
           \<and> s' = s\<lparr>s_ensemble := Some (match env (setLabels e ls))\<rparr> \<and> l = []"
  using assms by (auto simp: label_and_match_def split: option.splits)

lemma essa_computation_ok:
  assumes "essa_computation s = (s', l, Returns ())"
  shows "\<exists>e denom rows z. s_ensemble s = Some e \<and> getEigvals e = denom # rows
           \<and> essa_scores denom rows = Returns z \<and> s' = s\<lparr>s_zscore := Some z\<rparr> \<and> l = []"
  using assms by (auto simp: essa_computation_def split: option.splits list.splits outcome.splits)

lemma scan_start_ok:
  assumes "bind_run (ref_branch env ''gnm'' GNM cutoff s None) (\<lambda>s local.
             ref_branch env ''anm'' ANM cutoff s local) = (s', l, Returns r)"
    and "s_enm s = Some enm"
  shows "\<exists>k m. kind_of enm = Some k \<and> build env (new_enm k ''ca'') (s_ca s) cutoff = Returns m
           \<and> s' = s\<lparr>s_cutoff := enm_cutoff m\<rparr> \<and> l = [EvBuild m] \<and> r = Some m
       \<or> kind_of enm = None \<and> s' = s \<and> l = [] \<and> r = None"
proof -
  from bind_run_ReturnsE [OF assms(1)] obtain s1 l1 loc1 l2 where
    p1: "ref_branch env ''gnm'' GNM cutoff s None = (s1, l1, Returns loc1)"
    and p2: "ref_branch env ''anm'' ANM cutoff s1 loc1 = (s', l2, Returns r)"
    and l: "l = l1 @ l2"
    by blast
  show ?thesis
  proof (cases "enm = ''gnm''")
    case True
    with assms(2) ref_branch_ok [OF p1] obtain m where
      g: "build env (new_enm GNM ''ca'') (s_ca s) cutoff = Returns m"
         "s1 = s\<lparr>s_cutoff := enm_cutoff m\<rparr>" "l1 = [EvBuild m]" "loc1 = Some m"
      by auto
    have "s_enm s1 \<noteq> Some ''anm''" using g(2) assms(2) True by simp
    with ref_branch_ok [OF p2] have "s' = s1" "l2 = []" "r = loc1" by auto
    with g l True show ?thesis by (simp add: kind_of_def)
  next
    case False
    with assms(2) ref_branch_ok [OF p1] have g: "s1 = s" "l1 = []" "loc1 = None" by auto
    show ?thesis
    proof (cases "enm = ''anm''")
      case True
      with assms(2) g ref_branch_ok [OF p2] obtain m where
        "build env (new_enm ANM ''ca'') (s_ca s) cutoff = Returns m"
        "s' = s\<lparr>s_cutoff := enm_cutoff m\<rparr>" "l2 = [EvBuild m]" "r = Some m"
        by auto
      with g l True show ?thesis by (simp add: kind_of_def)
    next
      case False
      with assms(2) g ref_branch_ok [OF p2] have "s' = s" "l2 = []" "r = None" by auto
      with g l False \<open>enm \<noteq> ''gnm''\<close> show ?thesis by (simp add: kind_of_def)
    qed
  qed
qed

lemma scanResidues_completed:
  assumes "scanResidues env n_modes enm cutoff s0 = (s', l, Returns ())"
  shows "\<exists>k ca ref c ms0 mss z lp.
           kind_of enm = Some k \<and> s_ca s0 = Some ca
         \<and> build env (new_enm k ''ca'') (Some ca) cutoff = Returns ref
         \<and> c = (case cutoff of None \<Rightarrow> default_cutoff k | Some u \<Rightarrow> u)
         \<and> enm_cutoff ref = Some c \<and> s_cutoff s' = Some c
         \<and> env_calcModes env ref (Some n_modes) = Returns ms0
         \<and> map (spec_perturbed_member env k c n_modes (s_heavy s0) (Some ca)) (getResindices ca)
             = map Returns mss
         \<and> s_ensemble s' = Some \<lparr>ens_title = fmt (s_title s0), ens_atoms = Some ca,
               ens_modesets = ms0 # map (env_match env ms0) mss,
               ens_labels = Some (''ref'' # map res_label (getResindices ca))\<rparr>
         \<and> essa_scores (ms_eigvals ms0) (map (\<lambda>m. ms_eigvals (env_match env ms0 m)) mss) = Returns z
         \<and> s_zscore s' = Some z
         \<and> l = EvBuild ref # EvCalcModes ref (Some n_modes) # EvProgress (numAtoms ca) # lp
         \<and> map enm_title (built_models lp) = map res_label (getResindices ca)
         \<and> list_all (\<lambda>m. enm_cutoff m = Some c) (built_models lp)
         \<and> list_all (\<lambda>p. snd p = Some n_modes) (solver_calls lp)
         \<and> length (solver_calls lp) = length (getResindices ca)"
proof -
  define e0 where "e0 = setAtoms (ModeEnsemble (fmt (s_title s0))) (s_ca s0)"
  define s2 where "s2 = s0\<lparr>s_n_modes := Some n_modes, s_enm := Some enm,
                          s_ensemble := Some e0, s_labels := Some [''ref'']\<rparr>"
  define tail :: "atoms \<Rightarrow> essa \<Rightarrow> unit run" where
    "tail = (\<lambda>ca s. bind_run (scan_loop env (getResindices ca) s) (\<lambda>s _.
             bind_run (label_and_match env s) (\<lambda>s _.
             essa_computation s)))"
  define rest :: "essa \<Rightarrow> unit run" where
    "rest = (\<lambda>s. case s_ca s of
            None \<Rightarrow> (s, [], Raises AttributeError)
          | Some ca \<Rightarrow> bind_run (s, [EvProgress (numAtoms ca)], Returns ()) (\<lambda>s _. tail ca s))"
  have t: "bind_run (ref_branch env ''gnm'' GNM cutoff s2 None) (\<lambda>s local.
           bind_run (ref_branch env ''anm'' ANM cutoff s local) (\<lambda>s local.
           bind_run (add_modes env (Some n_modes) s local) (\<lambda>s _. rest s))) = (s', l, Returns ())"
    using assms unfolding scanResidues_def Let_def s2_def e0_def rest_def tail_def by simp
  from bind_run_ReturnsE [OF t] obtain s3 l1 loc1 l' where
    p1: "ref_branch env ''gnm'' GNM cutoff s2 None = (s3, l1, Returns loc1)"
    and t2: "bind_run (ref_branch env ''anm'' ANM cutoff s3 loc1) (\<lambda>s local.
           bind_run (add_modes env (Some n_modes) s local) (\<lambda>s _. rest s)) = (s', l', Returns ())"
    and l1: "l = l1 @ l'"
    by blast
  from bind_run_ReturnsE [OF t2] obtain s4 l2 loc2 l'' where
    p2: "ref_branch env ''anm'' ANM cutoff s3 loc1 = (s4, l2, Returns loc2)"
    and t3: "bind_run (add_modes env (Some n_modes) s4 loc2) (\<lambda>s _. rest s) = (s', l'', Returns ())"
    and l2: "l' = l2 @ l''"
    by blast
  have "bind_run (ref_branch env ''gnm'' GNM cutoff s2 None) (\<lambda>s local.
             ref_branch env ''anm'' ANM cutoff s local) = (s4, l1 @ l2, Returns loc2)"
    using p1 p2 by simp
  from scan_start_ok [OF this, of enm] consider
      (1) k ref where "kind_of enm = Some k"
        "build env (new_enm k ''ca'') (s_ca s2) cutoff = Returns ref"
        "s4 = s2\<lparr>s_cutoff := enm_cutoff ref\<rparr>" "l1 @ l2 = [EvBuild ref]" "loc2 = Some ref"
    | (2) "loc2 = None"
    by (auto simp: s2_def)
  then show ?thesis
  proof cases
    case 2
    with t3 show ?thesis by (simp add: add_modes_def)
  next
    case 1
    define c where "c = (case cutoff of None \<Rightarrow> default_cutoff k | Some u \<Rightarrow> u)"
    have refc: "enm_cutoff ref = Some c"
      using build_Returns [OF 1(2)] by (simp add: c_def new_enm_def split: option.splits)
    from bind_run_ReturnsE [OF t3] obtain s5 l3 l4 where
      p3: "add_modes env (Some n_modes) s4 loc2 = (s5, l3, Returns ())"
      and t4: "rest s5 = (s', l4, Returns ())" and l3: "l'' = l3 @ l4"
      by auto
    from add_modes_ok [OF p3] 1 obtain ms0 where
      am: "env_calcModes env ref (Some n_modes) = Returns ms0"
          "s5 = s4\<lparr>s_ensemble := Some (addModeSet e0 ms0)\<rparr>" "l3 = [EvCalcModes ref (Some n_modes)]"
      by (auto simp: s2_def)
    have s5: "s_ca s5 = s_ca s0" "s_heavy s5 = s_heavy s0" "s_enm s5 = Some enm"
      "s_cutoff s5 = Some c" "s_n_modes s5 = Some n_modes"
      "s_ensemble s5 = Some (addModeSet e0 ms0)" "s_labels s5 = Some [''ref'']"
      using am(2) 1(3) refc by (simp_all add: s2_def)
    from t4 s5(1) obtain ca where ca: "s_ca s0 = Some ca"
      by (auto simp: rest_def split: option.splits)
    with t4 s5(1) have "bind_run (s5, [EvProgress (numAtoms ca)], Returns ()) (\<lambda>s _. tail ca s)
                         = (s', l4, Returns ())"
      by (simp add: rest_def)
    from bind_run_ReturnsE [OF this] obtain l5 where
      t5: "tail ca s5 = (s', l5, Returns ())" and l4: "l4 = EvProgress (numAtoms ca) # l5"
      by auto
    from bind_run_ReturnsE [OF t5 [unfolded tail_def]] obtain s6 lp l6 where
      p5: "scan_loop env (getResindices ca) s5 = (s6, lp, Returns ())"
      and t6: "bind_run (label_and_match env s6) (\<lambda>s _. essa_computation s) = (s', l6, Returns ())"
      and l5: "l5 = lp @ l6"
      by auto
    from bind_run_ReturnsE [OF t6] obtain s7 l7 l8 where
      p6: "label_and_match env s6 = (s7, l7, Returns ())"
      and p7: "essa_computation s7 = (s', l8, Returns ())" and l6: "l6 = l7 @ l8"
      by auto
    from scan_loop_ok [OF p5 s5(6,7,3) 1(1) s5(4,5)] obtain mss where
      lo: "map (spec_perturbed_member env k c n_modes (s_heavy s5) (s_ca s5)) (getResindices ca)
             = map Returns mss"
          "s_ensemble s6 = Some ((addModeSet e0 ms0)\<lparr>ens_modesets := ens_modesets (addModeSet e0 ms0) @ mss\<rparr>)"
          "s_labels s6 = Some ([''ref''] @ map res_label (getResindices ca))"
          "s_ca s6 = s_ca s5" "s_cutoff s6 = s_cutoff s5" "s_zscore s6 = s_zscore s5"
          "map enm_title (built_models lp) = map res_label (getResindices ca)"
          "list_all (\<lambda>m. enm_cutoff m = Some c) (built_models lp)"
          "list_all (\<lambda>p. snd p = Some n_modes) (solver_calls lp)"
          "length (solver_calls lp) = length (getResindices ca)"
      by blast
    define e7 where "e7 = \<lparr>ens_title = fmt (s_title s0), ens_atoms = Some ca,
               ens_modesets = ms0 # map (env_match env ms0) mss,
               ens_labels = Some (''ref'' # map res_label (getResindices ca))\<rparr>"
    from label_and_match_ok [OF p6] lo(2,3) have
      lm: "s7 = s6\<lparr>s_ensemble := Some e7\<rparr>" "l7 = []"
      by (auto simp: e7_def match_def setLabels_def addModeSet_def e0_def setAtoms_def
            ModeEnsemble_def ca)
    from essa_computation_ok [OF p7] lm obtain z where
      ec: "essa_scores (ms_eigvals ms0) (map (\<lambda>m. ms_eigvals (env_match env ms0 m)) mss) = Returns z"
          "s' = s7\<lparr>s_zscore := Some z\<rparr>" "l8 = []"
      by (auto simp: e7_def getEigvals_def comp_def)
    have fin: "s_cutoff s' = Some c" "s_ensemble s' = Some e7" "s_zscore s' = Some z"
      using ec(2) lm(1) lo(5) s5(4) by simp_all
    have ll: "l = EvBuild ref # EvCalcModes ref (Some n_modes) # EvProgress (numAtoms ca) # lp"
    proof -
      have "l = (l1 @ l2) @ l3 @ l4" using l1 l2 l3 by simp
      then show ?thesis using 1(4) am(3) l4 l5 l6 lm(2) ec(3) by simp
    qed
    have b: "build env (new_enm k ''ca'') (Some ca) cutoff = Returns ref"
      using 1(2) ca by (simp add: s2_def)
    have pm: "map (spec_perturbed_member env k c n_modes (s_heavy s0) (Some ca)) (getResindices ca)
             = map Returns mss"
      using lo(1) s5(1,2) ca by simp
    show ?thesis
      using 1(1) ca b c_def refc fin am(1) pm ec(1) ll lo(7-10) unfolding e7_def by blast
  qed
qed

lemma row_shift:
  assumes "length row = n" and "length denom = n"
  shows "map2 (\<lambda>x d. x / d * 100) (map2 (-) row denom) denom
       = map (\<lambda>j. (row ! j - denom ! j) / denom ! j * 100) [0 ..< n]"
  using assms by (intro nth_equalityI) simp_all

lemma zscore_spec: "zscore a = spec_zscore a"
  by (simp add: zscore_def spec_zscore_def np_std_def spec_std_def np_mean_def spec_mean_def)

lemma essa_scores_spec:
  assumes "list_all (\<lambda>row. length row = n) (denom # rows)" and "0 < n" and "0 \<notin> set denom"
  shows "essa_scores denom rows = Returns (spec_zscore (map (spec_shift n denom) rows))"
proof -
  have len: "length denom = n" "\<And>row. row \<in> set rows \<Longrightarrow> length row = n"
    using assms(1) by (auto simp: list_all_iff)
  have b: "bsub rows denom = Returns (map (\<lambda>row. map2 (-) row denom) rows)"
    using len by (simp add: bsub_def list_all_iff)
  have d: "eig_diff_of (map (\<lambda>row. map2 (-) row denom) rows) denom
         = Finite (map (\<lambda>row. map (\<lambda>j. (row ! j - denom ! j) / denom ! j * 100) [0 ..< n]) rows)"
  proof -
    have rs: "map2 (\<lambda>x d. x / d * 100) (map2 (-) row denom) denom
              = map (\<lambda>j. (row ! j - denom ! j) / denom ! j * 100) [0 ..< n]"
      if "row \<in> set rows" for row
      using len that by (intro row_shift) simp_all
    have eq: "map (\<lambda>row. map2 (\<lambda>x d. x / d * 100) row denom) (map (\<lambda>row. map2 (-) row denom) rows)
              = map (\<lambda>row. map (\<lambda>j. (row ! j - denom ! j) / denom ! j * 100) [0 ..< n]) rows"
      unfolding map_map comp_def by (rule map_cong [OF refl]) (rule rs)
    have no: "\<not> (map (\<lambda>row. map2 (-) row denom) rows \<noteq> [] \<and> 0 \<in> set denom)"
      using assms(3) by simp
    show ?thesis
      by (simp only: eig_diff_of_def if_not_P [OF no] eq)
  qed
  have m: "mean_axis1 (map (\<lambda>row. map (\<lambda>j. (row ! j - denom ! j) / denom ! j * 100) [0 ..< n]) rows)
         = Finite (map (spec_shift n denom) rows)"
    using assms(2) by (auto simp: mean_axis1_def spec_shift_def)
  show ?thesis
    by (simp only: essa_scores_def b outcome.case d np_bind.simps m zscore_spec)
qed

text \<open>
  C1. After a completed scan whose ensemble holds the reference eigenvalues \<open>ref\<close> and the
  rows \<open>perts\<close> of the perturbed members, each of \<^verbatim>\<open>n_modes\<close> eigenvalues (at least one),
  no reference eigenvalue being zero, the z-scores are the z-score transform of the vector
  that has, for each perturbed member, the mean over the modes of
  \<open>(\<lambda>_perturbed - \<lambda>_ref) / \<lambda>_ref * 100\<close>. (The transform has no finite value when the
  vector has entries and its standard deviation is zero; the code then gives \<^verbatim>\<open>nan\<close>.)
\<close>

theorem scanResidues_zscore:
  assumes "scanResidues env n_modes enm cutoff s0 = (s', l, Returns ())"
    and "stacked_eigvals s' = Some (ref # perts)"
    and "list_all (\<lambda>row. length row = nat n_modes) (ref # perts)"
    and "0 < n_modes" and "0 \<notin> set ref"
  shows "s_zscore s' = Some (spec_zscore (map (spec_shift (nat n_modes) ref) perts))"
proof -
  from scanResidues_completed [OF assms(1)] obtain ms0 mss z e where
    e: "s_ensemble s' = Some e" "ens_modesets e = ms0 # map (env_match env ms0) mss"
    and z: "essa_scores (ms_eigvals ms0) (map (\<lambda>m. ms_eigvals (env_match env ms0 m)) mss) = Returns z"
           "s_zscore s' = Some z"
    by force
  from e assms(2) have "ref = ms_eigvals ms0" "perts = map (\<lambda>m. ms_eigvals (env_match env ms0 m)) mss"
    by (simp_all add: stacked_eigvals_def getEigvals_def comp_def)
  with z have "essa_scores ref perts = Returns z" by simp
  moreover have "essa_scores ref perts = Returns (spec_zscore (map (spec_shift (nat n_modes) ref) perts))"
    using assms(3,4,5) by (intro essa_scores_spec) simp_all
  ultimately show ?thesis using z(2) by simp
qed

text \<open>
  C4. After a completed scan over a C-alpha selection of N atoms, the ensemble has N + 1
  members and the labels \<^verbatim>\<open>ref\<close>, then \<^verbatim>\<open>res_i\<close> for the residue indices \<open>i\<close> of the
  selection in its order. Member 0 is the mode set of the reference model; member j + 1 is
  the mode set of the reduced perturbed model of the j-th residue index, matched against
  the reference.
\<close>

theorem scanResidues_members:
  assumes "scanResidues env n_modes enm cutoff s0 = (s', l, Returns ())"
  shows "\<exists>k ca c e ms0 mss.
           kind_of enm = Some k \<and> s_ca s0 = Some ca \<and> s_cutoff s' = Some c
         \<and> s_ensemble s' = Some e
         \<and> length (ens_modesets e) = numAtoms ca + 1
         \<and> ens_labels e = Some (''ref'' # map res_label (getResindices ca))
         \<and> spec_reference env k c n_modes (Some ca) = Returns ms0
         \<and> map (spec_perturbed_member env k c n_modes (s_heavy s0) (Some ca)) (getResindices ca)
             = map Returns mss
         \<and> ens_modesets e = ms0 # map (env_match env ms0) mss"
proof -
  from scanResidues_completed [OF assms] obtain k ca ref c ms0 mss where
    f: "kind_of enm = Some k" "s_ca s0 = Some ca"
       "build env (new_enm k ''ca'') (Some ca) cutoff = Returns ref"
       "c = (case cutoff of None \<Rightarrow> default_cutoff k | Some u \<Rightarrow> u)"
       "s_cutoff s' = Some c"
       "env_calcModes env ref (Some n_modes) = Returns ms0"
       "map (spec_perturbed_member env k c n_modes (s_heavy s0) (Some ca)) (getResindices ca)
             = map Returns mss"
       "s_ensemble s' = Some \<lparr>ens_title = fmt (s_title s0), ens_atoms = Some ca,
               ens_modesets = ms0 # map (env_match env ms0) mss,
               ens_labels = Some (''ref'' # map res_label (getResindices ca))\<rparr>"
    by blast
  have "build env (new_enm k ''ca'') (Some ca) (Some c) = build env (new_enm k ''ca'') (Some ca) cutoff"
    using f(4) by (simp add: build_def new_enm_def split: option.splits)
  then have r: "spec_reference env k c n_modes (Some ca) = Returns ms0"
    using f(3,6) by (simp add: spec_reference_def)
  have "length mss = length (getResindices ca)"
    using f(7) by (metis length_map)
  then have n: "length (ms0 # map (env_match env ms0) mss) = numAtoms ca + 1"
    by (simp add: numAtoms_def getResindices_def)
  show ?thesis
    using f(1,2,5,7,8) r n by force
qed

text \<open>
  C5. In a completed scan, the models built are the reference model and then one model per
  residue, all with the same cutoff, which is also the value of \<^verbatim>\<open>_cutoff\<close>: the cutoff
  given by the caller, or with none given the one the builder of the reference model took
  (its default). The solver is called N + 1 times, every time with the caller's \<^verbatim>\<open>n_modes\<close>.
\<close>

theorem scanResidues_same_cutoff:
  assumes "scanResidues env n_modes enm cutoff s0 = (s', l, Returns ())"
  shows "\<exists>ca c ref perts.
           s_ca s0 = Some ca \<and> built_models l = ref # perts
         \<and> enm_title ref = ''ca'' \<and> map enm_title perts = map res_label (getResindices ca)
         \<and> enm_cutoff ref = Some c \<and> list_all (\<lambda>m. enm_cutoff m = Some c) perts
         \<and> s_cutoff s' = Some c
         \<and> c = (case cutoff of None \<Rightarrow> default_cutoff (enm_kind ref) | Some u \<Rightarrow> u)
         \<and> length (solver_calls l) = numAtoms ca + 1
         \<and> list_all (\<lambda>p. snd p = Some n_modes) (solver_calls l)"
proof -
  from scanResidues_completed [OF assms] obtain k ca ref c lp where
    f: "s_ca s0 = Some ca"
       "build env (new_enm k ''ca'') (Some ca) cutoff = Returns ref"
       "c = (case cutoff of None \<Rightarrow> default_cutoff k | Some u \<Rightarrow> u)"
       "enm_cutoff ref = Some c" "s_cutoff s' = Some c"
       "l = EvBuild ref # EvCalcModes ref (Some n_modes) # EvProgress (numAtoms ca) # lp"
       "map enm_title (built_models lp) = map res_label (getResindices ca)"
       "list_all (\<lambda>m. enm_cutoff m = Some c) (built_models lp)"
       "list_all (\<lambda>p. snd p = Some n_modes) (solver_calls lp)"
       "length (solver_calls lp) = length (getResindices ca)"
    by blast
  have ref: "enm_title ref = ''ca''" "enm_kind ref = k"
    using build_Returns [OF f(2)] by (simp_all add: new_enm_def)
  have b: "built_models l = ref # built_models lp" "solver_calls l = (ref, Some n_modes) # solver_calls lp"
    using f(6) by simp_all
  have "length (solver_calls l) = numAtoms ca + 1"
    using b f(10) by (simp add: numAtoms_def getResindices_def)
  moreover have "list_all (\<lambda>p. snd p = Some n_modes) (solver_calls l)"
    using b f(9) by simp
  ultimately show ?thesis
    using f(1,3,4,5,7,8) ref b(1) by blast
qed

subsection \<open>The scan of the small structure\<close>

lemma str_nat_small: "str_nat 0 = ''0''" "str_nat 1 = ''1''" "str_nat (Suc 0) = ''1''"
  by (subst str_nat.simps, simp)+

lemma demo_setup_eq:
  "demo_setup = ESSA_init\<lparr>s_atoms := Some demo_atoms, s_title := Some ''demo'',
                           s_heavy := Some demo_atoms, s_ca := Some demo_atoms\<rparr>"
  by (simp add: demo_setup_def demo_env_def setSystem_def Let_def kw_pop_def ESSA_init_def
        getTitle_def demo_atoms_def state_of_def)

lemma demo_scan:
  "outcome_of (scanResidues demo_env 1 ''gnm'' None demo_setup) = Returns ()"
  "stacked_eigvals (state_of (scanResidues demo_env 1 ''gnm'' None demo_setup))
     = Some [[100], [100], [102]]"
  "s_cutoff (state_of (scanResidues demo_env 1 ''gnm'' None demo_setup)) = Some 10"
  by (simp_all add: demo_setup_eq ESSA_init_def scanResidues_def Let_def ref_branch_def
        reference_model_def build_def new_enm_def default_cutoff_def add_modes_def demo_env_def
        demo_modes_def addModeSet_def setAtoms_def ModeEnsemble_def fmt_def numAtoms_def
        getResindices_def demo_atoms_def scan_residue_def pert_branch_def reduce_and_add_def
        str_nat_small label_and_match_def match_def setLabels_def essa_computation_def
        getEigvals_def essa_scores_def bsub_def eig_diff_of_def mean_axis1_def zscore_def
        np_mean_def np_std_def state_of_def outcome_of_def stacked_eigvals_def)

lemma demo_scan_run:
  "scanResidues demo_env 1 ''gnm'' None demo_setup
     = (state_of (scanResidues demo_env 1 ''gnm'' None demo_setup),
        events_of (scanResidues demo_env 1 ''gnm'' None demo_setup), Returns ())"
  using demo_scan(1) by (simp add: state_of_def events_of_def outcome_of_def prod_eq_iff)

lemma demo_spec_scores:
  "spec_zscore (map (spec_shift (nat 1) [100]) [[100], [102]]) = Finite [- 1, 1]"
  by (simp add: spec_zscore_def spec_shift_def spec_std_def spec_mean_def)

theorem scanResidues_zscore_witness:
  "s_zscore (state_of (scanResidues demo_env 1 ''gnm'' None demo_setup)) = Some (Finite [- 1, 1])"
proof -
  have e: "stacked_eigvals (state_of (scanResidues demo_env 1 ''gnm'' None demo_setup))
             = Some ([100] # [[100], [102]])"
    using demo_scan(2) by simp
  have la: "list_all (\<lambda>row. length row = nat 1) ([100] # [[100], [102 :: real]])"
    by simp
  have p: "0 < (1 :: int)" by simp
  have z: "0 \<notin> set [100 :: real]" by simp
  show ?thesis
    using scanResidues_zscore [OF demo_scan_run e la p z] demo_spec_scores by simp
qed

theorem scanResidues_members_witness:
  "\<exists>e. s_ensemble (state_of (scanResidues demo_env 1 ''gnm'' None demo_setup)) = Some e
       \<and> length (ens_modesets e) = 3
       \<and> ens_labels e = Some [''ref'', ''res_0'', ''res_1'']"
proof -
  have ca: "s_ca demo_setup = Some demo_atoms"
    by (simp add: demo_setup_eq)
  have n: "numAtoms demo_atoms = 2" "getResindices demo_atoms = [0, 1]"
    by (simp_all add: numAtoms_def getResindices_def demo_atoms_def)
  have lb: "res_label 0 = ''res_0''" "res_label 1 = ''res_1''"
    by (simp_all add: res_label_def str_nat_small)
  from scanResidues_members [OF demo_scan_run] obtain ca' e where
    "s_ca demo_setup = Some ca'"
    "s_ensemble (state_of (scanResidues demo_env 1 ''gnm'' None demo_setup)) = Some e"
    "length (ens_modesets e) = numAtoms ca' + 1"
    "ens_labels e = Some (''ref'' # map res_label (getResindices ca'))"
    by blast
  with ca n lb show ?thesis by simp
qed

theorem scanResidues_same_cutoff_witness:
  "\<exists>ref perts. built_models (events_of (scanResidues demo_env 1 ''gnm'' None demo_setup)) = ref # perts
       \<and> map enm_title perts = [''res_0'', ''res_1'']
       \<and> enm_cutoff ref = Some 10 \<and> list_all (\<lambda>m. enm_cutoff m = Some 10) perts
       \<and> length (solver_calls (events_of (scanResidues demo_env 1 ''gnm'' None demo_setup))) = 3"
proof -
  have ca: "s_ca demo_setup = Some demo_atoms"
    by (simp add: demo_setup_eq)
  have n: "numAtoms demo_atoms = 2" "getResindices demo_atoms = [0, 1]"
    by (simp_all add: numAtoms_def getResindices_def demo_atoms_def)
  have lb: "res_label 0 = ''res_0''" "res_label 1 = ''res_1''"
    by (simp_all add: res_label_def str_nat_small)
  from scanResidues_same_cutoff [OF demo_scan_run] obtain ca' c ref perts where
    f: "s_ca demo_setup = Some ca'"
    "built_models (events_of (scanResidues demo_env 1 ''gnm'' None demo_setup)) = ref # perts"
    "map enm_title perts = map res_label (getResindices ca')"
    "enm_cutoff ref = Some c" "list_all (\<lambda>m. enm_cutoff m = Some c) perts"
    "s_cutoff (state_of (scanResidues demo_env 1 ''gnm'' None demo_setup)) = Some c"
    "length (solver_calls (events_of (scanResidues demo_env 1 ''gnm'' None demo_setup))) = numAtoms ca' + 1"
    by blast
  from f(6) demo_scan(3) have "c = 10" by simp
  with f ca n lb show ?thesis by simp
qed

end
